theory Spec2Isabelle
  imports Complex_Main
begin

section \<open>Numbers and arrays\<close>

text \<open>
  The scores are Python floats and numpy arrays of float64. A value of an array is a
  finite number, an infinity or NaN; a raw score is a finite number, written as the real
  number it is.
\<close>

datatype npfloat = Fin real | PInf | NInf | NaN

text \<open>
  The arithmetic of numpy is a parameter of the model: \<open>np.mean\<close> and \<open>np.std\<close> of a
  list of scores, and the element-wise \<open>-\<close>, \<open>/\<close> and \<open>+\<close> of float64. Nothing is assumed
  of them, so what is proved of the script holds however they round, overflow or
  underflow. None of them raises: a zero divisor gives a RuntimeWarning and a special
  value. The section on IEEE double arithmetic below defines the instance \<open>float64\<close>, on
  which the script is run on concrete inputs.
\<close>

record numpy =
  np_mean :: "real list \<Rightarrow> npfloat"
  np_std :: "real list \<Rightarrow> npfloat"
  np_subtract :: "npfloat \<Rightarrow> npfloat \<Rightarrow> npfloat"
  np_divide :: "npfloat \<Rightarrow> npfloat \<Rightarrow> npfloat"
  np_add :: "npfloat \<Rightarrow> npfloat \<Rightarrow> npfloat"

text \<open>
  The normalization expression of \<open>generate_init.py\<close>, written seven times there
  (lines 107-109, 138-140 and 166):
  \<^verbatim>\<open>(np.array(xs) - np.mean(xs)) / np.std(xs)\<close>
  The subtraction and the division broadcast the two scalars over the array.
\<close>

definition normalize :: "numpy \<Rightarrow> real list \<Rightarrow> npfloat list" where
  "normalize np xs =
     map (\<lambda>x. np_divide np (np_subtract np (Fin x) (np_mean np xs)) (np_std np xs)) xs"

text \<open>Element-wise \<open>+\<close> of two arrays of the same shape.\<close>

definition arr_add :: "numpy \<Rightarrow> npfloat list \<Rightarrow> npfloat list \<Rightarrow> npfloat list" where
  "arr_add np xs ys = map2 (np_add np) xs ys"

section \<open>Errors, data and collaborators\<close>

text \<open>The Python exceptions that the two source files raise or let through.\<close>

datatype error =
  NotImplementedError | ValueError | KeyError | TypeError | IndexError | FileNotFoundError
  | OtherError string

text \<open>
  \<open>smiles_df\<close> is read with \<open>index_col=0\<close>: each row carries the label found in the
  first column of the CSV (an integer, as in the dataset the script defaults to) and its
  SMILES string. Rows are kept in file order.
\<close>

type_synonym dataframe = "(int \<times> string) list"

text \<open>What the script writes with \<open>np.savetxt\<close>: a matrix or a vector of numbers, under a
  file name of the directory \<open>data/latent_features_and_targets\<close>.\<close>

datatype content = Matrix "real list list" | Vector "npfloat list"

type_synonym files = "string \<rightharpoonup> content"

definition savetxt :: "files \<Rightarrow> string \<Rightarrow> content \<Rightarrow> files" where
  "savetxt fs path arr = fs(path \<mapsto> arr)"

text \<open>
  The code that \<open>generate_init.py\<close> calls and that is not part of the two source files is
  a parameter of the model: the generative model (\<open>model_from_json\<close>, \<open>model.embed\<close>),
  RDKit (\<open>MolFromSmiles\<close>, which returns \<open>None\<close> on a string it cannot parse, and the
  Morgan fingerprint), the scorers of \<open>data_processing\<close> (\<open>logP\<close>, \<open>qed\<close>,
  \<open>calculateScore\<close>, \<open>cycle_score\<close>), and the pickled classifier with its
  \<open>predict_proba\<close>. Each may raise, also on a \<open>None\<close> molecule: nothing is assumed of
  them here. (The scorer \<open>qed\<close> is the field \<open>comp_metrics_qed\<close>, after its module.)
\<close>

record ('mol, 'model, 'clf) collaborators =
  model_from_json :: "string \<Rightarrow> error + 'model"
  embed :: "'model \<Rightarrow> dataframe \<Rightarrow> error + real list list"
  MolFromSmiles :: "string \<Rightarrow> 'mol option"
  logP :: "'mol option \<Rightarrow> error + real"
  comp_metrics_qed :: "'mol option \<Rightarrow> error + real"
  calculateScore :: "'mol option \<Rightarrow> error + real"
  cycle_score :: "'mol option \<Rightarrow> error + real"
  pickle_load :: "error + 'clf"
  GetMorganFingerprintAsBitVect :: "'mol option \<Rightarrow> nat \<Rightarrow> nat \<Rightarrow> error + bool list"
  predict_proba :: "'clf \<Rightarrow> bool list list \<Rightarrow> error + (real \<times> real) list"

text \<open>The command line: \<open>--input\<close>, \<open>--obj\<close>, \<open>--cutoff\<close> (an \<open>int\<close>) and \<open>--name\<close>.\<close>

record args =
  input :: string
  obj :: string
  cutoff :: int
  name :: string

section \<open>The script \<open>generate_init.py\<close>\<close>

subsection \<open>Loading (lines 62-65)\<close>

text \<open>\<open>pd.read_csv(path, index_col=0, nrows=n)\<close> reads the first \<open>n\<close> rows of the file, all
  of them when the file has fewer or when \<open>nrows\<close> is not given. The first argument is
  the parsed file.\<close>

definition read_csv :: "dataframe \<Rightarrow> nat option \<Rightarrow> dataframe" where
  "read_csv csv nrows = (case nrows of None \<Rightarrow> csv | Some n \<Rightarrow> take n csv)"

definition load_smiles_df :: "args \<Rightarrow> dataframe \<Rightarrow> dataframe" where
  "load_smiles_df a csv =
     (if cutoff a > 0 then read_csv csv (Some (nat (cutoff a)))
      else read_csv csv None)"

subsection \<open>The scoring loops (lines 93-105 and 124-136)\<close>

text \<open>
  \<open>smiles_rdkit[i]\<close> on a pandas Series with an integer index looks the label \<open>i\<close> up:
  KeyError when no row has it, the string when one row has it, a sub-Series when several
  rows have it.
\<close>

datatype item = Scalar string | SubSeries "string list"

definition series_getitem :: "dataframe \<Rightarrow> int \<Rightarrow> error + item" where
  "series_getitem df i =
     (case filter (\<lambda>row. fst row = i) df of
        [] \<Rightarrow> Inl KeyError
      | [row] \<Rightarrow> Inr (Scalar (snd row))
      | rows \<Rightarrow> Inr (SubSeries (map snd rows)))"

text \<open>RDKit's \<open>MolFromSmiles\<close> accepts a string only (a Boost.Python ArgumentError, which
  is a TypeError, otherwise).\<close>

definition mol_of_item ::
  "('mol, 'model, 'clf) collaborators \<Rightarrow> item \<Rightarrow> error + 'mol option" where
  "mol_of_item env it =
     (case it of Scalar s \<Rightarrow> Inr (MolFromSmiles env s) | SubSeries _ \<Rightarrow> Inl TypeError)"

text \<open>
  The two loops differ in their first scorer only (\<open>logP\<close> or \<open>qed\<close>), the parameter
  \<open>f\<close>. The fourth argument is what is left of \<open>range(len(smiles_rdkit))\<close>, the fifth the
  three lists built so far. The first exception ends the loop.
\<close>

fun score_loop ::
  "('mol, 'model, 'clf) collaborators \<Rightarrow> ('mol option \<Rightarrow> error + real) \<Rightarrow> dataframe
     \<Rightarrow> nat list \<Rightarrow> real list \<times> real list \<times> real list
     \<Rightarrow> error + real list \<times> real list \<times> real list" where
  "score_loop env f smiles_rdkit [] acc = Inr acc"
| "score_loop env f smiles_rdkit (i # rest) (values, SA_scores, cycle_scores) =
     (case series_getitem smiles_rdkit (int i) of Inl e \<Rightarrow> Inl e | Inr it \<Rightarrow>
     (case mol_of_item env it of Inl e \<Rightarrow> Inl e | Inr m \<Rightarrow>
     (case f m of Inl e \<Rightarrow> Inl e | Inr v \<Rightarrow>
     (case calculateScore env m of Inl e \<Rightarrow> Inl e | Inr sa \<Rightarrow>
     (case cycle_score env m of Inl e \<Rightarrow> Inl e | Inr cy \<Rightarrow>
        score_loop env f smiles_rdkit rest
          (values @ [v], SA_scores @ [- sa], cycle_scores @ [- cy]))))))"

subsection \<open>The branches \<open>logp\<close> (lines 89-118) and \<open>qed\<close> (lines 120-149)\<close>

definition logp_branch ::
  "numpy \<Rightarrow> ('mol, 'model, 'clf) collaborators \<Rightarrow> dataframe \<Rightarrow> files \<Rightarrow> files \<times> error option" where
  "logp_branch np env smiles_rdkit fs =
     (case score_loop env (logP env) smiles_rdkit [0..<length smiles_rdkit] ([], [], []) of
        Inl e \<Rightarrow> (fs, Some e)
      | Inr (logP_values, SA_scores, cycle_scores) \<Rightarrow>
          let SA_scores_normalized = normalize np SA_scores;
              logP_values_normalized = normalize np logP_values;
              cycle_scores_normalized = normalize np cycle_scores;
              targets = arr_add np (arr_add np SA_scores_normalized logP_values_normalized)
                          cycle_scores_normalized;
              fs = savetxt fs ''targets_logp.txt'' (Vector targets);
              fs = savetxt fs ''logP_values.txt'' (Vector (map Fin logP_values));
              fs = savetxt fs ''SA_scores.txt'' (Vector (map Fin SA_scores));
              fs = savetxt fs ''cycle_scores.txt'' (Vector (map Fin cycle_scores))
          in (fs, None))"

definition qed_branch ::
  "numpy \<Rightarrow> ('mol, 'model, 'clf) collaborators \<Rightarrow> dataframe \<Rightarrow> files \<Rightarrow> files \<times> error option" where
  "qed_branch np env smiles_rdkit fs =
     (case score_loop env (comp_metrics_qed env) smiles_rdkit [0..<length smiles_rdkit] ([], [], []) of
        Inl e \<Rightarrow> (fs, Some e)
      | Inr (qed_values, SA_scores, cycle_scores) \<Rightarrow>
          let SA_scores_normalized = normalize np SA_scores;
              qed_values_normalized = normalize np qed_values;
              cycle_scores_normalized = normalize np cycle_scores;
              targets = arr_add np (arr_add np SA_scores_normalized qed_values_normalized)
                          cycle_scores_normalized;
              fs = savetxt fs ''targets_qed.txt'' (Vector targets);
              fs = savetxt fs ''qed_values.txt'' (Vector (map Fin qed_values));
              fs = savetxt fs ''SA_scores.txt'' (Vector (map Fin SA_scores));
              fs = savetxt fs ''cycle_scores.txt'' (Vector (map Fin cycle_scores))
          in (fs, None))"

subsection \<open>The branch \<open>qsar\<close> (lines 151-171)\<close>

text \<open>The fingerprint loop iterates over the values of the Series, in row order; the
  radius 3 and \<open>nBits=2048\<close> are the literals of line 162.\<close>

fun fps_loop ::
  "('mol, 'model, 'clf) collaborators \<Rightarrow> string list \<Rightarrow> bool list list
     \<Rightarrow> error + bool list list" where
  "fps_loop env [] fps = Inr fps"
| "fps_loop env (s # rest) fps =
     (let m = MolFromSmiles env s in
      case GetMorganFingerprintAsBitVect env m 3 2048 of
        Inl e \<Rightarrow> Inl e
      | Inr bv \<Rightarrow> fps_loop env rest (fps @ [bv]))"

text \<open>\<open>np.vstack\<close> raises ValueError on an empty list and on rows of different lengths.\<close>

definition np_vstack :: "bool list list \<Rightarrow> error + bool list list" where
  "np_vstack rows =
     (case rows of
        [] \<Rightarrow> Inl ValueError
      | r # rs \<Rightarrow> if list_all (\<lambda>r'. length r' = length r) rs then Inr rows
                  else Inl ValueError)"

definition qsar_branch ::
  "numpy \<Rightarrow> ('mol, 'model, 'clf) collaborators \<Rightarrow> dataframe \<Rightarrow> files \<Rightarrow> files \<times> error option" where
  "qsar_branch np env smiles_rdkit fs =
     (case pickle_load env of Inl e \<Rightarrow> (fs, Some e) | Inr clf \<Rightarrow>
     (case fps_loop env (map snd smiles_rdkit) [] of Inl e \<Rightarrow> (fs, Some e) | Inr fps \<Rightarrow>
     (case np_vstack fps of Inl e \<Rightarrow> (fs, Some e) | Inr fps \<Rightarrow>
     (case predict_proba env clf fps of Inl e \<Rightarrow> (fs, Some e) | Inr proba \<Rightarrow>
        let targets = map snd proba;
            targets = normalize np targets
        in (savetxt fs ''targets_qsar.txt'' (Vector targets), None)))))"

subsection \<open>The script\<close>

text \<open>
  The run from line 56 on: it takes numpy's arithmetic, the collaborators, the parsed
  command line, the parsed CSV file and the files present before, and returns the files present after with
  the exception that ended the run, if any. Printing, the move of the model to its device
  (\<open>model.to\<close>, \<open>model.eval\<close>) and the construction of the empty \<open>Loader\<close> are left
  out. An \<open>--obj\<close> that is none of the four names falls through every branch.
\<close>

definition main ::
  "numpy \<Rightarrow> ('mol, 'model, 'clf) collaborators \<Rightarrow> args \<Rightarrow> dataframe \<Rightarrow> files \<Rightarrow> files \<times> error option" where
  "main np env a csv fs =
     (case model_from_json env (name a) of Inl e \<Rightarrow> (fs, Some e) | Inr model \<Rightarrow>
      let smiles_df = load_smiles_df a csv in
     (case embed env model smiles_df of Inl e \<Rightarrow> (fs, Some e) | Inr z \<Rightarrow>
      let fs = savetxt fs ''latent_features.txt'' (Matrix z);
          smiles_rdkit = smiles_df in
      if obj a = ''logp'' then logp_branch np env smiles_rdkit fs
      else if obj a = ''qed'' then qed_branch np env smiles_rdkit fs
      else if obj a = ''qsar'' then qsar_branch np env smiles_rdkit fs
      else if obj a = ''docking'' then (fs, Some NotImplementedError)
      else (fs, None)))"

section \<open>\<open>utils.py\<close>\<close>

subsection \<open>\<open>QED_oracle\<close> (lines 149-156)\<close>




subsection \<open>\<open>Dumper.dump\<close> (lines 55-71)\<close>

text \<open>
  A \<open>Dumper\<close> holds its \<open>dumping_path\<close> (possibly \<open>None\<close>) and its dictionary \<open>dic\<close>.
  \<open>json.dumps\<close> is a parameter that may raise (TypeError on a value that is not JSON
  data, ValueError on a circular reference). Opening a path for writing may raise too:
  Python itself raises ValueError on a path with a NUL character, before the operating
  system is asked; what the operating system answers (for instance FileNotFoundError on
  the empty path or on a missing directory) is the parameter \<open>os_open\<close>, \<open>None\<close> when the
  file is opened. An opened file is created or truncated, and \<open>print(j, file=f)\<close> writes
  \<open>j\<close> and a newline. The text files are a map from paths to contents.
\<close>

record 'd Dumper =
  dumping_path :: "string option"
  dic :: 'd

type_synonym text_files = "string \<rightharpoonup> string"

text \<open>What ends \<open>dump\<close> early: its own \<open>raise ValueError('Where should I dump ? No
  dump_path provided')\<close> of line 65, or an exception raised by \<open>json.dumps\<close> or \<open>open\<close>,
  which \<open>dump\<close> lets through.\<close>

datatype dump_error = NoDumpPath | Raised error

fun is_ValueError :: "dump_error \<Rightarrow> bool" where
  "is_ValueError NoDumpPath = True"
| "is_ValueError (Raised e) = (e = ValueError)"

definition open_w :: "(string \<Rightarrow> error option) \<Rightarrow> string \<Rightarrow> error option" where
  "open_w os_open path =
     (if CHR 0x00 \<in> set path then Some ValueError else os_open path)"

definition dump ::
  "('d \<Rightarrow> error + string) \<Rightarrow> (string \<Rightarrow> error option) \<Rightarrow> 'd Dumper \<Rightarrow> 'd option
     \<Rightarrow> string option \<Rightarrow> text_files \<Rightarrow> dump_error + text_files" where
  "dump json_dumps os_open self dict_to_dump path_arg fs =
     (let path = (if path_arg = None then dumping_path self else path_arg) in
      if path = None then Inl NoDumpPath
      else
        let d = (if dict_to_dump = None then dic self else the dict_to_dump) in
        (case json_dumps d of
           Inl e \<Rightarrow> Inl (Raised e)
         | Inr j \<Rightarrow>
            (case open_w os_open (the path) of
               Some e \<Rightarrow> Inl (Raised e)
             | None \<Rightarrow> Inr (fs(the path \<mapsto> j @ [CHR 0x0A])))))"

section \<open>The specification's notions\<close>

text \<open>
  The composite objective as the specification words it (sections 3, 4.5 and 8):
  \<open>composite = sum_i normalize(score_i)\<close>, the element-wise sum of the normalized
  component vectors, taken in the order of the list.
\<close>

definition composite :: "numpy \<Rightarrow> real list list \<Rightarrow> npfloat list" where
  "composite np comps =
     (case map (normalize np) comps of [] \<Rightarrow> [] | c # cs \<Rightarrow> foldl (arr_add np) c cs)"

text \<open>A batch with zero variance, as the specification words it: every molecule of a
  (non-empty) batch has an identical score.\<close>

definition zero_variance :: "real list \<Rightarrow> bool" where
  "zero_variance xs \<longleftrightarrow> xs \<noteq> [] \<and> (\<forall>x\<in>set xs. x = hd xs)"



section \<open>IEEE double arithmetic\<close>

text \<open>
  The instance of numpy's arithmetic on which the script is run on concrete inputs:
  every operation gives the exact result rounded to the nearest binary64 number, ties to
  the even mantissa. \<open>ulp64 x\<close> is the spacing of the binary64 numbers around \<open>x\<close> (53
  bits of mantissa, the exponent not below \<open>- 1022\<close>, which makes the subnormal numbers
  multiples of \<open>2 powr - 1074\<close>); a result of magnitude \<open>2 ^ 1024\<close> or more overflows to an
  infinity. The sign of a zero is not represented.
\<close>

definition round_half_even :: "real \<Rightarrow> int" where
  "round_half_even y =
     (let f = \<lfloor>y\<rfloor>; d = y - of_int f
      in if d < 1 / 2 then f else if 1 / 2 < d then f + 1
         else if even f then f else f + 1)"

definition ulp64 :: "real \<Rightarrow> real" where
  "ulp64 x = 2 powr of_int (max \<lfloor>log 2 \<bar>x\<bar>\<rfloor> (- 1022) - 52)"

definition round64 :: "real \<Rightarrow> npfloat" where
  "round64 x =
     (if x = 0 then Fin 0
      else
        let r = ulp64 x * of_int (round_half_even (x / ulp64 x))
        in if 2 ^ 1024 \<le> \<bar>r\<bar> then (if 0 < x then PInf else NInf) else Fin r)"

text \<open>The operations on values, with the IEEE rules for the infinities and NaN. The only
  zero divisor of the script is a standard deviation, a non-negative zero.\<close>

fun f64_neg :: "npfloat \<Rightarrow> npfloat" where
  "f64_neg (Fin a) = Fin (- a)"
| "f64_neg PInf = NInf"
| "f64_neg NInf = PInf"
| "f64_neg NaN = NaN"

fun f64_add :: "npfloat \<Rightarrow> npfloat \<Rightarrow> npfloat" where
  "f64_add NaN _ = NaN"
| "f64_add _ NaN = NaN"
| "f64_add (Fin a) (Fin b) = round64 (a + b)"
| "f64_add PInf NInf = NaN"
| "f64_add NInf PInf = NaN"
| "f64_add PInf _ = PInf"
| "f64_add NInf _ = NInf"
| "f64_add _ PInf = PInf"
| "f64_add _ NInf = NInf"

definition f64_subtract :: "npfloat \<Rightarrow> npfloat \<Rightarrow> npfloat" where
  "f64_subtract a b = f64_add a (f64_neg b)"

fun f64_multiply :: "npfloat \<Rightarrow> npfloat \<Rightarrow> npfloat" where
  "f64_multiply NaN _ = NaN"
| "f64_multiply _ NaN = NaN"
| "f64_multiply (Fin a) (Fin b) = round64 (a * b)"
| "f64_multiply (Fin a) PInf = (if a = 0 then NaN else if 0 < a then PInf else NInf)"
| "f64_multiply (Fin a) NInf = (if a = 0 then NaN else if 0 < a then NInf else PInf)"
| "f64_multiply PInf (Fin b) = (if b = 0 then NaN else if 0 < b then PInf else NInf)"
| "f64_multiply NInf (Fin b) = (if b = 0 then NaN else if 0 < b then NInf else PInf)"
| "f64_multiply PInf PInf = PInf"
| "f64_multiply PInf NInf = NInf"
| "f64_multiply NInf PInf = NInf"
| "f64_multiply NInf NInf = PInf"

fun f64_divide :: "npfloat \<Rightarrow> npfloat \<Rightarrow> npfloat" where
  "f64_divide NaN _ = NaN"
| "f64_divide _ NaN = NaN"
| "f64_divide (Fin a) (Fin b) =
     (if b = 0 then (if a = 0 then NaN else if 0 < a then PInf else NInf)
      else round64 (a / b))"
| "f64_divide (Fin a) PInf = Fin 0"
| "f64_divide (Fin a) NInf = Fin 0"
| "f64_divide PInf (Fin b) = (if b < 0 then NInf else PInf)"
| "f64_divide NInf (Fin b) = (if b < 0 then PInf else NInf)"
| "f64_divide PInf _ = NaN"
| "f64_divide NInf _ = NaN"

fun f64_sqrt :: "npfloat \<Rightarrow> npfloat" where
  "f64_sqrt (Fin a) = (if a < 0 then NaN else round64 (sqrt a))"
| "f64_sqrt PInf = PInf"
| "f64_sqrt NInf = NaN"
| "f64_sqrt NaN = NaN"

text \<open>
  \<open>np.add.reduce\<close> on a contiguous array of doubles: numpy's pairwise summation. Fewer
  than eight elements are added from left to right; up to 128 elements are added into
  eight interleaved accumulators, which are then added as a tree, and the remaining
  elements one by one; a longer array is split in two (the first part a multiple of
  eight long).
\<close>

function pairwise_sum :: "npfloat list \<Rightarrow> npfloat" where
  "pairwise_sum a =
     (let n = length a in
      if n < 8 then foldl f64_add (Fin 0) a
      else if n \<le> 128 then
        (let m = n - n mod 8;
             r = (\<lambda>j. foldl f64_add (a ! j) (map (\<lambda>i. a ! (8 * i + j)) [1..<m div 8]));
             res = f64_add (f64_add (f64_add (r 0) (r 1)) (f64_add (r 2) (r 3)))
                     (f64_add (f64_add (r 4) (r 5)) (f64_add (r 6) (r 7)))
         in foldl f64_add res (drop m a))
      else
        (let n2 = n div 2 - (n div 2) mod 8
         in f64_add (pairwise_sum (take n2 a)) (pairwise_sum (drop n2 a))))"
  by pat_completeness auto
termination
proof (relation "measure length")
  show "wf (measure length)" by simp
next
  fix a :: "npfloat list" and n n2
  assume "n = length a" "\<not> n < 8" "\<not> n \<le> 128" "n2 = n div 2 - n div 2 mod 8"
  then show "(take n2 a, a) \<in> measure length" by (simp; arith)
next
  fix a :: "npfloat list" and n n2
  assume "n = length a" "\<not> n < 8" "\<not> n \<le> 128" "n2 = n div 2 - n div 2 mod 8"
  then show "(drop n2 a, a) \<in> measure length" by (simp; arith)
qed

declare pairwise_sum.simps [simp del]

text \<open>The reduction starts from the identity 0.\<close>

definition umr_sum :: "npfloat list \<Rightarrow> npfloat" where
  "umr_sum a = f64_add (Fin 0) (pairwise_sum a)"

text \<open>
  \<open>np.mean\<close> divides the sum by the count. \<open>np.std\<close> (with its default \<open>ddof = 0\<close>)
  subtracts the mean, squares, sums, divides by the count and takes the square root. On
  an empty list both give NaN (from \<open>0 / 0\<close>).
\<close>

definition f64_mean :: "real list \<Rightarrow> npfloat" where
  "f64_mean xs = f64_divide (umr_sum (map Fin xs)) (Fin (real (length xs)))"

definition f64_std :: "real list \<Rightarrow> npfloat" where
  "f64_std xs =
     (let arrmean = f64_divide (umr_sum (map Fin xs)) (Fin (real (length xs)));
          x = map (\<lambda>v. f64_subtract (Fin v) arrmean) xs;
          x = map (\<lambda>d. f64_multiply d d) x;
          ret = f64_divide (umr_sum x) (Fin (real (length xs)))
      in f64_sqrt ret)"

definition float64 :: numpy where
  "float64 = \<lparr>np_mean = f64_mean, np_std = f64_std, np_subtract = f64_subtract,
     np_divide = f64_divide, np_add = f64_add\<rparr>"

section \<open>Concrete inputs\<close>

text \<open>
  A small world to run the script in: molecules are their non-empty SMILES strings, every
  scorer returns the length of the string (and raises TypeError on \<open>None\<close>), the latent
  vector of a row is the length of its string, the fingerprint of a molecule has all bits
  equal (set when the string is longer than one character), and the classifier gives
  probability 1 to a fingerprint whose first bit is set, 0 otherwise.
\<close>

definition toy_score :: "string option \<Rightarrow> error + real" where
  "toy_score m = (case m of None \<Rightarrow> Inl TypeError | Some s \<Rightarrow> Inr (real (length s)))"

definition toy_env :: "(string, unit, unit) collaborators" where
  "toy_env = \<lparr>
     model_from_json = (\<lambda>_. Inr ()),
     embed = (\<lambda>_ df. Inr (map (\<lambda>row. [real (length (snd row))]) df)),
     MolFromSmiles = (\<lambda>s. if s = [] then None else Some s),
     logP = toy_score,
     comp_metrics_qed = toy_score,
     calculateScore = toy_score,
     cycle_score = toy_score,
     pickle_load = Inr (),
     GetMorganFingerprintAsBitVect =
       (\<lambda>m r n. case m of None \<Rightarrow> Inl TypeError
                  | Some s \<Rightarrow> Inr (replicate n (1 < length s))),
     predict_proba = (\<lambda>_ fps. Inr (map (\<lambda>fp. if fp ! 0 then (0, 1) else (1, 0)) fps))
   \<rparr>"

definition toy_args :: "string \<Rightarrow> int \<Rightarrow> args" where
  "toy_args mode n = \<lparr> input = ''data/250k_zinc.csv'', obj = mode, cutoff = n, name = ''250k'' \<rparr>"

definition toy_csv :: dataframe where
  "toy_csv = [(0, ''C''), (1, ''CCO''), (2, ''CC'')]"

text \<open>A batch in which every molecule gets the same score from every scorer.\<close>

definition flat_csv :: dataframe where
  "flat_csv = [(0, ''CC''), (1, ''CO'')]"


text \<open>A stand-in for \<open>json.dumps\<close> on dictionaries given as text: it rejects a set.\<close>

definition toy_json_dumps :: "string \<Rightarrow> error + string" where
  "toy_json_dumps d = (if d = ''{1, 2}'' then Inl TypeError else Inr d)"

section \<open>Rounding to binary64\<close>

lemma round_half_even_int [simp]: "round_half_even (of_int m) = m"
  by (simp add: round_half_even_def)

lemma floor_log2_le:
  assumes "0 < x" and "x < 2 powr of_int k"
  shows "\<lfloor>log 2 x\<rfloor> \<le> k - 1"
proof -
  have "log 2 x < of_int k"
    using assms by (simp add: log_less_iff)
  then show ?thesis by linarith
qed

lemma round64_exact:
  assumes x: "x = of_int m * 2 powr of_int k"
    and m: "\<bar>m\<bar> < 2 ^ 53" and k: "- 1074 \<le> k" "k \<le> 971"
  shows "round64 x = Fin x"
proof (cases "m = 0")
  case True
  then show ?thesis by (simp add: x round64_def)
next
  case False
  then have x0: "x \<noteq> 0" by (simp add: x)
  have ax: "\<bar>x\<bar> = of_int \<bar>m\<bar> * 2 powr of_int k"
    by (simp add: x abs_mult)
  have "of_int \<bar>m\<bar> < (2::real) ^ 53"
    using m by (metis of_int_less_iff of_int_numeral of_int_power)
  then have lt: "\<bar>x\<bar> < 2 powr of_int (k + 53)"
    unfolding ax by (simp add: powr_add)
  have "\<lfloor>log 2 \<bar>x\<bar>\<rfloor> \<le> k + 52"
    using floor_log2_le [OF _ lt] x0 by simp
  then have "max \<lfloor>log 2 \<bar>x\<bar>\<rfloor> (- 1022) - 52 \<le> k"
    using k by simp
  define e where "e = max \<lfloor>log 2 \<bar>x\<bar>\<rfloor> (- 1022) - 52"
  have ek: "e \<le> k" using \<open>max \<lfloor>log 2 \<bar>x\<bar>\<rfloor> (- 1022) - 52 \<le> k\<close> by (simp add: e_def)
  have ue: "ulp64 x = 2 powr of_int e" by (simp add: ulp64_def e_def)
  define j where "j = nat (k - e)"
  have kj: "of_int k = of_int e + real j" using ek by (simp add: j_def)
  have "x = of_int m * (2 powr of_int e * 2 ^ j)"
    unfolding x kj by (simp add: powr_add powr_realpow)
  then have u: "x / ulp64 x = of_int (m * 2 ^ j)"
    unfolding ue by simp
  have r: "ulp64 x * of_int (round_half_even (x / ulp64 x)) = x"
    unfolding u round_half_even_int
    unfolding u [symmetric] ue by simp
  have "(2::real) powr of_int (k + 53) \<le> 2 powr of_int 1024"
    using k by (intro powr_mono) auto
  also have "\<dots> = 2 ^ 1024"
    using powr_realpow [of "2::real" 1024] by simp
  finally have "\<bar>x\<bar> < 2 ^ 1024" using lt by linarith
  then show ?thesis
    using x0 by (simp add: round64_def r Let_def)
qed

lemma pairwise_sum_short: "length a < 8 \<Longrightarrow> pairwise_sum a = foldl f64_add (Fin 0) a"
  by (simp add: pairwise_sum.simps)

lemma round64_int: "\<bar>m\<bar> < 2 ^ 53 \<Longrightarrow> round64 (of_int m) = Fin (of_int m)"
  using round64_exact [of "of_int m" m 0] by simp

lemma round64_dyadic:
  "\<bar>m\<bar> < 2 ^ 53 \<Longrightarrow> j \<le> 1074 \<Longrightarrow> round64 (of_int m / 2 ^ j) = Fin (of_int m / 2 ^ j)"
  using round64_exact [of "of_int m / 2 ^ j" m "- int j"]
  by (simp add: powr_minus powr_realpow field_simps)

lemma round64_numeral:
  "(numeral k :: int) < 2 ^ 53 \<Longrightarrow> round64 (numeral k) = Fin (numeral k)"
  using round64_int [of "numeral k"] by simp

lemma round64_neg_numeral:
  "(numeral k :: int) < 2 ^ 53 \<Longrightarrow> round64 (- numeral k) = Fin (- numeral k)"
  using round64_int [of "- numeral k"] by simp

lemmas round64_small =
  round64_int [of 0, simplified] round64_int [of 1, simplified]
  round64_int [of "- 1", simplified] round64_numeral round64_neg_numeral
  round64_dyadic [of 1 1, simplified] round64_dyadic [of "- 1" 1, simplified]
  round64_dyadic [of 1 2, simplified]








lemma float64_sel:
  "np_mean float64 = f64_mean" "np_std float64 = f64_std"
  "np_subtract float64 = f64_subtract" "np_divide float64 = f64_divide"
  "np_add float64 = f64_add"
  by (simp_all add: float64_def)

lemmas f64_eval =
  f64_mean_def f64_std_def umr_sum_def pairwise_sum_short round64_small f64_subtract_def

section \<open>What a successful run has done\<close>

lemma score_loop_acc:
  "score_loop env f df is (vs, sas, cys) = Inr (vs', sas', cys') \<Longrightarrow>
   \<exists>ws xs ys. vs' = vs @ ws \<and> sas' = sas @ xs \<and> cys' = cys @ ys
     \<and> length ws = length is \<and> length xs = length is \<and> length ys = length is
     \<and> (\<forall>k<length is. \<exists>it m. series_getitem df (int (is ! k)) = Inr it
             \<and> mol_of_item env it = Inr m \<and> f m = Inr (ws ! k)
             \<and> calculateScore env m = Inr (- (xs ! k))
             \<and> cycle_score env m = Inr (- (ys ! k)))"
proof (induction "is" arbitrary: vs sas cys)
  case Nil
  then show ?case by simp
next
  case (Cons i rest)
  from Cons.prems obtain it m v sa cy where
    it: "series_getitem df (int i) = Inr it" and m: "mol_of_item env it = Inr m"
    and v: "f m = Inr v" and sa: "calculateScore env m = Inr sa"
    and cy: "cycle_score env m = Inr cy"
    and rec: "score_loop env f df rest (vs @ [v], sas @ [- sa], cys @ [- cy]) = Inr (vs', sas', cys')"
    by (auto split: sum.splits)
  from Cons.IH [OF rec] obtain ws xs ys where
    e: "vs' = (vs @ [v]) @ ws" "sas' = (sas @ [- sa]) @ xs" "cys' = (cys @ [- cy]) @ ys"
    and l: "length ws = length rest" "length xs = length rest" "length ys = length rest"
    and p: "\<forall>k<length rest. \<exists>it m. series_getitem df (int (rest ! k)) = Inr it
             \<and> mol_of_item env it = Inr m \<and> f m = Inr (ws ! k)
             \<and> calculateScore env m = Inr (- (xs ! k))
             \<and> cycle_score env m = Inr (- (ys ! k))"
    by blast
  show ?case
  proof (rule exI [of _ "v # ws"], rule exI [of _ "- sa # xs"], rule exI [of _ "- cy # ys"],
      intro conjI allI impI)
    show "vs' = vs @ (v # ws)" using e by simp
    show "sas' = sas @ (- sa # xs)" using e by simp
    show "cys' = cys @ (- cy # ys)" using e by simp
    show "length (v # ws) = length (i # rest)" using l by simp
    show "length (- sa # xs) = length (i # rest)" using l by simp
    show "length (- cy # ys) = length (i # rest)" using l by simp
    fix k assume k: "k < length (i # rest)"
    show "\<exists>it m. series_getitem df (int ((i # rest) ! k)) = Inr it
             \<and> mol_of_item env it = Inr m \<and> f m = Inr ((v # ws) ! k)
             \<and> calculateScore env m = Inr (- ((- sa # xs) ! k))
             \<and> cycle_score env m = Inr (- ((- cy # ys) ! k))"
    proof (cases k)
      case 0
      then show ?thesis using it m v sa cy by auto
    next
      case (Suc j)
      then show ?thesis using p k by auto
    qed
  qed
qed

lemma score_loop_range:
  assumes "score_loop env f df [0..<n] ([], [], []) = Inr (vs, sas, cys)"
  shows "length vs = n \<and> length sas = n \<and> length cys = n
     \<and> (\<forall>k<n. \<exists>it m. series_getitem df (int k) = Inr it
             \<and> mol_of_item env it = Inr m \<and> f m = Inr (vs ! k)
             \<and> calculateScore env m = Inr (- (sas ! k))
             \<and> cycle_score env m = Inr (- (cys ! k)))"
  using score_loop_acc [OF assms] by auto

lemma main_logp_ok:
  assumes "main np env a csv fs = (fs', None)" and "obj a = ''logp''"
  shows "\<exists>model z lp sa cy.
           model_from_json env (name a) = Inr model
         \<and> embed env model (load_smiles_df a csv) = Inr z
         \<and> score_loop env (logP env) (load_smiles_df a csv)
              [0..<length (load_smiles_df a csv)] ([], [], []) = Inr (lp, sa, cy)
         \<and> fs' = fs(''latent_features.txt'' \<mapsto> Matrix z,
                    ''targets_logp.txt'' \<mapsto>
                       Vector (arr_add np (arr_add np (normalize np sa) (normalize np lp)) (normalize np cy)),
                    ''logP_values.txt'' \<mapsto> Vector (map Fin lp),
                    ''SA_scores.txt'' \<mapsto> Vector (map Fin sa),
                    ''cycle_scores.txt'' \<mapsto> Vector (map Fin cy))"
  using assms
  by (auto simp: main_def logp_branch_def Let_def savetxt_def split: sum.splits prod.splits)

lemma main_qed_ok:
  assumes "main np env a csv fs = (fs', None)" and "obj a = ''qed''"
  shows "\<exists>model z qv sa cy.
           model_from_json env (name a) = Inr model
         \<and> embed env model (load_smiles_df a csv) = Inr z
         \<and> score_loop env (comp_metrics_qed env) (load_smiles_df a csv)
              [0..<length (load_smiles_df a csv)] ([], [], []) = Inr (qv, sa, cy)
         \<and> fs' = fs(''latent_features.txt'' \<mapsto> Matrix z,
                    ''targets_qed.txt'' \<mapsto>
                       Vector (arr_add np (arr_add np (normalize np sa) (normalize np qv)) (normalize np cy)),
                    ''qed_values.txt'' \<mapsto> Vector (map Fin qv),
                    ''SA_scores.txt'' \<mapsto> Vector (map Fin sa),
                    ''cycle_scores.txt'' \<mapsto> Vector (map Fin cy))"
  using assms
  by (auto simp: main_def qed_branch_def Let_def savetxt_def split: sum.splits prod.splits)

lemma main_qsar_ok:
  assumes "main np env a csv fs = (fs', None)" and "obj a = ''qsar''"
  shows "\<exists>model z clf fps proba.
           model_from_json env (name a) = Inr model
         \<and> embed env model (load_smiles_df a csv) = Inr z
         \<and> pickle_load env = Inr clf
         \<and> fps_loop env (map snd (load_smiles_df a csv)) [] = Inr fps
         \<and> np_vstack fps = Inr fps
         \<and> predict_proba env clf fps = Inr proba
         \<and> fs' = fs(''latent_features.txt'' \<mapsto> Matrix z,
                    ''targets_qsar.txt'' \<mapsto> Vector (normalize np (map snd proba)))"
  using assms
  by (auto simp: main_def qsar_branch_def Let_def savetxt_def np_vstack_def
      split: sum.splits prod.splits list.splits if_splits)

lemma fps_loop_acc:
  "fps_loop env smiles acc = Inr fps \<Longrightarrow>
   \<exists>new. fps = acc @ new \<and> length new = length smiles
     \<and> (\<forall>k<length smiles.
           GetMorganFingerprintAsBitVect env (MolFromSmiles env (smiles ! k)) 3 2048
             = Inr (new ! k))"
proof (induction smiles arbitrary: acc)
  case Nil
  then show ?case by simp
next
  case (Cons s rest)
  from Cons.prems obtain bv where
    bv: "GetMorganFingerprintAsBitVect env (MolFromSmiles env s) 3 2048 = Inr bv"
    and rec: "fps_loop env rest (acc @ [bv]) = Inr fps"
    by (auto simp: Let_def split: sum.splits)
  from Cons.IH [OF rec] obtain new where
    e: "fps = (acc @ [bv]) @ new" and l: "length new = length rest"
    and p: "\<forall>k<length rest.
           GetMorganFingerprintAsBitVect env (MolFromSmiles env (rest ! k)) 3 2048
             = Inr (new ! k)"
    by blast
  show ?case
  proof (rule exI [of _ "bv # new"], intro conjI allI impI)
    show "fps = acc @ bv # new" using e by simp
    show "length (bv # new) = length (s # rest)" using l by simp
    fix k assume "k < length (s # rest)"
    then show "GetMorganFingerprintAsBitVect env (MolFromSmiles env ((s # rest) ! k)) 3 2048
             = Inr ((bv # new) ! k)"
      using bv p by (cases k) auto
  qed
qed

section \<open>Runs on the concrete inputs\<close>

lemma toy_sel:
  "MolFromSmiles toy_env = (\<lambda>s. if s = [] then None else Some s)"
  "calculateScore toy_env = toy_score"
  "cycle_score toy_env = toy_score"
  "GetMorganFingerprintAsBitVect toy_env =
       (\<lambda>m r n. case m of None \<Rightarrow> Inl TypeError
                  | Some s \<Rightarrow> Inr (replicate n (1 < length s)))"
  "model_from_json toy_env = (\<lambda>_. Inr ())"
  "embed toy_env = (\<lambda>_ df. Inr (map (\<lambda>row. [real (length (snd row))]) df))"
  "logP toy_env = toy_score"
  "comp_metrics_qed toy_env = toy_score"
  "pickle_load toy_env = Inr ()"
  "predict_proba toy_env = (\<lambda>_ fps. Inr (map (\<lambda>fp. if fp ! 0 then (0, 1) else (1, 0)) fps))"
  by (simp_all add: toy_env_def)

lemma toy_args_sel:
  "obj (toy_args mode n) = mode" "name (toy_args mode n) = ''250k''"
  "cutoff (toy_args mode n) = n"
  by (simp_all add: toy_args_def)

lemma toy_df: "load_smiles_df (toy_args mode 2) toy_csv = [(0, ''C''), (1, ''CCO'')]"
  by (simp add: load_smiles_df_def toy_args_def read_csv_def toy_csv_def)

lemma normalize_1_3: "normalize float64 [1, 3] = [Fin (- 1), Fin 1]"
  by (simp add: normalize_def float64_sel f64_eval)

lemma normalize_m1_m3: "normalize float64 [- 1, - 3] = [Fin 1, Fin (- 1)]"
  by (simp add: normalize_def float64_sel f64_eval)

lemma normalize_0_1: "normalize float64 [0, 1] = [Fin (- 1), Fin 1]"
  by (simp add: normalize_def float64_sel f64_eval real_sqrt_divide)

lemma toy_logp:
  "main float64 toy_env (toy_args ''logp'' 2) toy_csv Map.empty =
   ([''latent_features.txt'' \<mapsto> Matrix [[1], [3]],
     ''targets_logp.txt'' \<mapsto> Vector [Fin 1, Fin (- 1)],
     ''logP_values.txt'' \<mapsto> Vector [Fin 1, Fin 3],
     ''SA_scores.txt'' \<mapsto> Vector [Fin (- 1), Fin (- 3)],
     ''cycle_scores.txt'' \<mapsto> Vector [Fin (- 1), Fin (- 3)]], None)"
  by (simp add: main_def toy_df logp_branch_def toy_sel series_getitem_def mol_of_item_def
      toy_score_def normalize_1_3 normalize_m1_m3 arr_add_def float64_sel round64_small savetxt_def Let_def toy_args_sel)

lemma toy_qed:
  "main float64 toy_env (toy_args ''qed'' 2) toy_csv Map.empty =
   ([''latent_features.txt'' \<mapsto> Matrix [[1], [3]],
     ''targets_qed.txt'' \<mapsto> Vector [Fin 1, Fin (- 1)],
     ''qed_values.txt'' \<mapsto> Vector [Fin 1, Fin 3],
     ''SA_scores.txt'' \<mapsto> Vector [Fin (- 1), Fin (- 3)],
     ''cycle_scores.txt'' \<mapsto> Vector [Fin (- 1), Fin (- 3)]], None)"
  by (simp add: main_def toy_df qed_branch_def toy_sel series_getitem_def mol_of_item_def
      toy_score_def normalize_1_3 normalize_m1_m3 arr_add_def float64_sel round64_small savetxt_def Let_def toy_args_sel)

lemma toy_qsar:
  "main float64 toy_env (toy_args ''qsar'' 2) toy_csv Map.empty =
   ([''latent_features.txt'' \<mapsto> Matrix [[1], [3]],
     ''targets_qsar.txt'' \<mapsto> Vector [Fin (- 1), Fin 1]], None)"
  by (simp add: main_def toy_df qsar_branch_def toy_sel normalize_0_1 np_vstack_def
      savetxt_def Let_def toy_args_sel)

lemma toy_docking:
  "main float64 toy_env (toy_args ''docking'' 2) toy_csv Map.empty =
   ([''latent_features.txt'' \<mapsto> Matrix [[1], [3]]], Some NotImplementedError)"
  by (simp add: main_def toy_df toy_sel savetxt_def Let_def toy_args_sel)

section \<open>Normalization\<close>
















section \<open>The cutoff\<close>

lemma load_idem: "load_smiles_df a (load_smiles_df a csv) = load_smiles_df a csv"
  by (simp add: load_smiles_df_def read_csv_def)

lemma branch_keeps_latent:
  "fs ''latent_features.txt'' = Some c \<Longrightarrow>
     fst (logp_branch np env df fs) ''latent_features.txt'' = Some c
   \<and> fst (qed_branch np env df fs) ''latent_features.txt'' = Some c
   \<and> fst (qsar_branch np env df fs) ''latent_features.txt'' = Some c"
  by (auto simp: logp_branch_def qed_branch_def qsar_branch_def Let_def savetxt_def
      split: sum.splits prod.splits)

lemma main_embed:
  assumes "model_from_json env (name a) = Inr model"
  shows "(embed env model (load_smiles_df a csv) = Inl e \<longrightarrow> main np env a csv fs = (fs, Some e))
    \<and> (embed env model (load_smiles_df a csv) = Inr z \<longrightarrow>
         fst (main np env a csv fs) ''latent_features.txt'' = Some (Matrix z))"
proof (intro conjI impI)
  assume "embed env model (load_smiles_df a csv) = Inl e"
  then show "main np env a csv fs = (fs, Some e)"
    using assms by (simp add: main_def)
next
  assume z: "embed env model (load_smiles_df a csv) = Inr z"
  have l: "savetxt fs ''latent_features.txt'' (Matrix z) ''latent_features.txt'' = Some (Matrix z)"
    by (simp add: savetxt_def)
  show "fst (main np env a csv fs) ''latent_features.txt'' = Some (Matrix z)"
    using assms z l
      branch_keeps_latent [where fs = "savetxt fs ''latent_features.txt'' (Matrix z)"
        and c = "Matrix z" and np = np and env = env and df = "load_smiles_df a csv", OF l]
    by (simp add: main_def Let_def)
qed

text \<open>
  Claim C7. With a positive cutoff \<open>N\<close> the script works on exactly the first \<open>N\<close> rows of
  the input, on all of them when there are fewer, and never on more; with a cutoff that
  is not positive it works on all rows. The whole run is the run on the truncated file;
  the embedding is computed for exactly these rows and its result written to
  \<open>latent_features.txt\<close>; and a successful run has scored exactly these rows: the score
  vectors and the target vector of \<open>logp\<close> and \<open>qed\<close> have one entry per row, and \<open>qsar\<close>
  has computed one fingerprint per row.
\<close>

theorem cutoff_first_rows:
  "(0 < cutoff a \<longrightarrow>
      load_smiles_df a csv = take (nat (cutoff a)) csv
      \<and> length (load_smiles_df a csv) = min (nat (cutoff a)) (length csv)
      \<and> length (load_smiles_df a csv) \<le> nat (cutoff a))
   \<and> (cutoff a \<le> 0 \<longrightarrow> load_smiles_df a csv = csv)
   \<and> main np env a csv fs = main np env a (load_smiles_df a csv) fs
   \<and> (\<forall>model. model_from_json env (name a) = Inr model \<longrightarrow>
        (\<forall>e. embed env model (load_smiles_df a csv) = Inl e
              \<longrightarrow> main np env a csv fs = (fs, Some e))
      \<and> (\<forall>z. embed env model (load_smiles_df a csv) = Inr z
              \<longrightarrow> fst (main np env a csv fs) ''latent_features.txt'' = Some (Matrix z)))
   \<and> (snd (main np env a csv fs) = None \<longrightarrow>
        (obj a = ''logp'' \<longrightarrow> (\<exists>lp sa cy ts.
            score_loop env (logP env) (load_smiles_df a csv)
              [0..<length (load_smiles_df a csv)] ([], [], []) = Inr (lp, sa, cy)
          \<and> length lp = length (load_smiles_df a csv)
          \<and> length sa = length (load_smiles_df a csv)
          \<and> length cy = length (load_smiles_df a csv)
          \<and> fst (main np env a csv fs) ''targets_logp.txt'' = Some (Vector ts)
          \<and> length ts = length (load_smiles_df a csv)))
      \<and> (obj a = ''qed'' \<longrightarrow> (\<exists>qv sa cy ts.
            score_loop env (comp_metrics_qed env) (load_smiles_df a csv)
              [0..<length (load_smiles_df a csv)] ([], [], []) = Inr (qv, sa, cy)
          \<and> length qv = length (load_smiles_df a csv)
          \<and> length sa = length (load_smiles_df a csv)
          \<and> length cy = length (load_smiles_df a csv)
          \<and> fst (main np env a csv fs) ''targets_qed.txt'' = Some (Vector ts)
          \<and> length ts = length (load_smiles_df a csv)))
      \<and> (obj a = ''qsar'' \<longrightarrow> (\<exists>fps.
            fps_loop env (map snd (load_smiles_df a csv)) [] = Inr fps
          \<and> length fps = length (load_smiles_df a csv))))"
proof (intro conjI)
  show "0 < cutoff a \<longrightarrow>
      load_smiles_df a csv = take (nat (cutoff a)) csv
      \<and> length (load_smiles_df a csv) = min (nat (cutoff a)) (length csv)
      \<and> length (load_smiles_df a csv) \<le> nat (cutoff a)"
    by (simp add: load_smiles_df_def read_csv_def min.commute)
  show "cutoff a \<le> 0 \<longrightarrow> load_smiles_df a csv = csv"
    by (simp add: load_smiles_df_def read_csv_def)
  show "main np env a csv fs = main np env a (load_smiles_df a csv) fs"
    by (simp only: main_def load_idem)
  show "\<forall>model. model_from_json env (name a) = Inr model \<longrightarrow>
        (\<forall>e. embed env model (load_smiles_df a csv) = Inl e
              \<longrightarrow> main np env a csv fs = (fs, Some e))
      \<and> (\<forall>z. embed env model (load_smiles_df a csv) = Inr z
              \<longrightarrow> fst (main np env a csv fs) ''latent_features.txt'' = Some (Matrix z))"
  proof (intro allI impI conjI)
    fix model e
    assume "model_from_json env (name a) = Inr model"
      and "embed env model (load_smiles_df a csv) = Inl e"
    then show "main np env a csv fs = (fs, Some e)"
      using main_embed [where env = env and a = a and model = model and csv = csv
          and e = e and np = np and fs = fs] by blast
  next
    fix model z
    assume "model_from_json env (name a) = Inr model"
      and "embed env model (load_smiles_df a csv) = Inr z"
    then show "fst (main np env a csv fs) ''latent_features.txt'' = Some (Matrix z)"
      using main_embed [where env = env and a = a and model = model and csv = csv
          and z = z and np = np and fs = fs] by blast
  qed
  show "snd (main np env a csv fs) = None \<longrightarrow>
        (obj a = ''logp'' \<longrightarrow> (\<exists>lp sa cy ts.
            score_loop env (logP env) (load_smiles_df a csv)
              [0..<length (load_smiles_df a csv)] ([], [], []) = Inr (lp, sa, cy)
          \<and> length lp = length (load_smiles_df a csv)
          \<and> length sa = length (load_smiles_df a csv)
          \<and> length cy = length (load_smiles_df a csv)
          \<and> fst (main np env a csv fs) ''targets_logp.txt'' = Some (Vector ts)
          \<and> length ts = length (load_smiles_df a csv)))
      \<and> (obj a = ''qed'' \<longrightarrow> (\<exists>qv sa cy ts.
            score_loop env (comp_metrics_qed env) (load_smiles_df a csv)
              [0..<length (load_smiles_df a csv)] ([], [], []) = Inr (qv, sa, cy)
          \<and> length qv = length (load_smiles_df a csv)
          \<and> length sa = length (load_smiles_df a csv)
          \<and> length cy = length (load_smiles_df a csv)
          \<and> fst (main np env a csv fs) ''targets_qed.txt'' = Some (Vector ts)
          \<and> length ts = length (load_smiles_df a csv)))
      \<and> (obj a = ''qsar'' \<longrightarrow> (\<exists>fps.
            fps_loop env (map snd (load_smiles_df a csv)) [] = Inr fps
          \<and> length fps = length (load_smiles_df a csv)))"
  proof (intro impI conjI)
    let ?df = "load_smiles_df a csv"
    assume "snd (main np env a csv fs) = None"
    then have ok: "main np env a csv fs = (fst (main np env a csv fs), None)"
      by (metis prod.collapse)
    {
      assume "obj a = ''logp''"
      from main_logp_ok [OF ok this] obtain model z lp sa cy where
        "model_from_json env (name a) = Inr model" and
        l: "score_loop env (logP env) ?df [0..<length ?df] ([], [], []) = Inr (lp, sa, cy)"
        and f: "fst (main np env a csv fs) = fs(''latent_features.txt'' \<mapsto> Matrix z,
                    ''targets_logp.txt'' \<mapsto>
                       Vector (arr_add np (arr_add np (normalize np sa) (normalize np lp)) (normalize np cy)),
                    ''logP_values.txt'' \<mapsto> Vector (map Fin lp),
                    ''SA_scores.txt'' \<mapsto> Vector (map Fin sa),
                    ''cycle_scores.txt'' \<mapsto> Vector (map Fin cy))"
        by blast
      note n = score_loop_range [OF l]
      have t: "fst (main np env a csv fs) ''targets_logp.txt''
          = Some (Vector (arr_add np (arr_add np (normalize np sa) (normalize np lp)) (normalize np cy)))"
        by (simp add: f)
      have "length (arr_add np (arr_add np (normalize np sa) (normalize np lp)) (normalize np cy))
          = length ?df"
        using n by (simp add: arr_add_def normalize_def)
      with l n t show "\<exists>lp sa cy ts.
            score_loop env (logP env) ?df [0..<length ?df] ([], [], []) = Inr (lp, sa, cy)
          \<and> length lp = length ?df \<and> length sa = length ?df \<and> length cy = length ?df
          \<and> fst (main np env a csv fs) ''targets_logp.txt'' = Some (Vector ts)
          \<and> length ts = length ?df"
        by blast
    }
    {
      assume "obj a = ''qed''"
      from main_qed_ok [OF ok this] obtain model z qv sa cy where
        "model_from_json env (name a) = Inr model" and
        l: "score_loop env (comp_metrics_qed env) ?df [0..<length ?df] ([], [], []) = Inr (qv, sa, cy)"
        and f: "fst (main np env a csv fs) = fs(''latent_features.txt'' \<mapsto> Matrix z,
                    ''targets_qed.txt'' \<mapsto>
                       Vector (arr_add np (arr_add np (normalize np sa) (normalize np qv)) (normalize np cy)),
                    ''qed_values.txt'' \<mapsto> Vector (map Fin qv),
                    ''SA_scores.txt'' \<mapsto> Vector (map Fin sa),
                    ''cycle_scores.txt'' \<mapsto> Vector (map Fin cy))"
        by blast
      note n = score_loop_range [OF l]
      have t: "fst (main np env a csv fs) ''targets_qed.txt''
          = Some (Vector (arr_add np (arr_add np (normalize np sa) (normalize np qv)) (normalize np cy)))"
        by (simp add: f)
      have "length (arr_add np (arr_add np (normalize np sa) (normalize np qv)) (normalize np cy))
          = length ?df"
        using n by (simp add: arr_add_def normalize_def)
      with l n t show "\<exists>qv sa cy ts.
            score_loop env (comp_metrics_qed env) ?df [0..<length ?df] ([], [], []) = Inr (qv, sa, cy)
          \<and> length qv = length ?df \<and> length sa = length ?df \<and> length cy = length ?df
          \<and> fst (main np env a csv fs) ''targets_qed.txt'' = Some (Vector ts)
          \<and> length ts = length ?df"
        by blast
    }
    {
      assume "obj a = ''qsar''"
      from main_qsar_ok [OF ok this] obtain fps where
        l: "fps_loop env (map snd ?df) [] = Inr fps"
        by blast
      from fps_loop_acc [OF l] have "length fps = length ?df" by auto
      with l show "\<exists>fps. fps_loop env (map snd ?df) [] = Inr fps \<and> length fps = length ?df"
        by blast
    }
  qed
qed

theorem cutoff_first_rows_witness:
  "load_smiles_df (toy_args ''logp'' 2) toy_csv = [(0, ''C''), (1, ''CCO'')]
   \<and> length (load_smiles_df (toy_args ''logp'' 2) toy_csv) = 2
   \<and> load_smiles_df (toy_args ''logp'' (- 1)) toy_csv = [(0, ''C''), (1, ''CCO''), (2, ''CC'')]
   \<and> main float64 toy_env (toy_args ''logp'' 2) toy_csv Map.empty
       = main float64 toy_env (toy_args ''logp'' 2) [(0, ''C''), (1, ''CCO'')] Map.empty
   \<and> fst (main float64 toy_env (toy_args ''logp'' 2) toy_csv Map.empty) ''latent_features.txt''
       = Some (Matrix [[1], [3]])
   \<and> fst (main float64 toy_env (toy_args ''logp'' 2) toy_csv Map.empty) ''targets_logp.txt''
       = Some (Vector [Fin 1, Fin (- 1)])"
proof -
  note t = cutoff_first_rows [of "toy_args ''logp'' 2" toy_csv float64 toy_env Map.empty]
  note u = cutoff_first_rows [of "toy_args ''logp'' (- 1)" toy_csv float64 toy_env Map.empty]
  have 1: "load_smiles_df (toy_args ''logp'' 2) toy_csv = [(0, ''C''), (1, ''CCO'')]"
    using t by (simp add: toy_args_sel toy_csv_def)
  have 2: "load_smiles_df (toy_args ''logp'' (- 1)) toy_csv = [(0, ''C''), (1, ''CCO''), (2, ''CC'')]"
    using u by (simp add: toy_args_sel toy_csv_def)
  have 3: "main float64 toy_env (toy_args ''logp'' 2) toy_csv Map.empty
       = main float64 toy_env (toy_args ''logp'' 2) [(0, ''C''), (1, ''CCO'')] Map.empty"
    using t unfolding 1 by blast
  have 4: "fst (main float64 toy_env (toy_args ''logp'' 2) toy_csv Map.empty)
      ''latent_features.txt'' = Some (Matrix [[1], [3]])"
  proof (rule t [THEN conjunct2, THEN conjunct2, THEN conjunct2, THEN conjunct1, rule_format,
        THEN conjunct2, rule_format])
    show "model_from_json toy_env (name (toy_args ''logp'' 2)) = Inr ()"
      by (simp add: toy_sel)
    show "embed toy_env () (load_smiles_df (toy_args ''logp'' 2) toy_csv) = Inr [[1], [3]]"
      by (simp add: toy_sel 1)
  qed
  have 5: "fst (main float64 toy_env (toy_args ''logp'' 2) toy_csv Map.empty) ''targets_logp.txt''
       = Some (Vector [Fin 1, Fin (- 1)])"
    by (simp add: toy_logp)
  have 6: "length (load_smiles_df (toy_args ''logp'' 2) toy_csv) = 2"
    by (simp add: 1)
  show ?thesis by (intro conjI 1 2 3 4 5 6)
qed


section \<open>The mode \<open>docking\<close>\<close>

text \<open>
  Claim C3, as amended. With \<open>--obj docking\<close> the run always ends with an exception. When
  the model loads and the embedding succeeds, the script has written
  \<open>latent_features.txt\<close> by then and the exception is NotImplementedError; no other
  file is written or changed.
\<close>

theorem docking_fails_after_embedding:
  assumes "obj a = ''docking''"
  shows "snd (main np env a csv fs) \<noteq> None
    \<and> (\<forall>model z. model_from_json env (name a) = Inr model
          \<longrightarrow> embed env model (load_smiles_df a csv) = Inr z
          \<longrightarrow> main np env a csv fs
                = (fs(''latent_features.txt'' \<mapsto> Matrix z), Some NotImplementedError))
    \<and> (\<forall>p. p \<noteq> ''latent_features.txt'' \<longrightarrow> fst (main np env a csv fs) p = fs p)"
  using assms
  by (auto simp: main_def Let_def savetxt_def split: sum.splits)

theorem docking_fails_after_embedding_witness:
  "main float64 toy_env (toy_args ''docking'' 2) toy_csv Map.empty
     = ([''latent_features.txt'' \<mapsto> Matrix [[1], [3]]], Some NotImplementedError)"
  using docking_fails_after_embedding [of "toy_args ''docking'' 2" float64 toy_env toy_csv Map.empty]
  by (simp add: toy_args_sel toy_sel toy_df)

text \<open>
  Claim C3 as stated (the run fails at once and produces no output file) is false: on the
  concrete input the run ends with NotImplementedError after it has written
  \<open>latent_features.txt\<close>.
\<close>

theorem docking_writes_latent_features:
  "snd (main float64 toy_env (toy_args ''docking'' 2) toy_csv Map.empty) = Some NotImplementedError
   \<and> fst (main float64 toy_env (toy_args ''docking'' 2) toy_csv Map.empty) ''latent_features.txt''
       = Some (Matrix [[1], [3]])
   \<and> fst (main float64 toy_env (toy_args ''docking'' 2) toy_csv Map.empty) \<noteq> Map.empty"
proof -
  have "[''latent_features.txt'' \<mapsto> Matrix [[1], [3]]] ''latent_features.txt'' \<noteq> None"
    by simp
  then have "[''latent_features.txt'' \<mapsto> Matrix [[1::real], [3]]] \<noteq> Map.empty"
    by (metis)
  then show ?thesis by (simp add: toy_docking)
qed

section \<open>\<open>Dumper.dump\<close>\<close>

text \<open>
  Claim C10, as amended. \<open>Dumper.dump\<close> raises its own ValueError (\<open>'Where should I dump
  ? No dump_path provided'\<close>) if and only if both its \<open>dumping_path\<close> argument and
  \<open>self.dumping_path\<close> are \<open>None\<close>. Otherwise it passes the dictionary (\<open>self.dic\<close> when
  \<open>dict_to_dump\<close> is \<open>None\<close>) to \<open>json.dumps\<close> and opens the resolved path (the argument
  when given, \<open>self.dumping_path\<close> when not) for writing: when neither raises, the text
  and a newline are written to that path; when one raises, \<open>dump\<close> raises that exception.
\<close>

theorem dump_ValueError_iff:
  "(dump json_dumps os_open self dict_to_dump path_arg fs = Inl NoDumpPath
      \<longleftrightarrow> path_arg = None \<and> dumping_path self = None)
   \<and> (\<not> (path_arg = None \<and> dumping_path self = None) \<longrightarrow>
        (\<exists>path d. (path_arg = Some path \<or> path_arg = None \<and> dumping_path self = Some path)
           \<and> (dict_to_dump = Some d \<or> dict_to_dump = None \<and> d = dic self)
           \<and> (\<forall>e. json_dumps d = Inl e
                 \<longrightarrow> dump json_dumps os_open self dict_to_dump path_arg fs = Inl (Raised e))
           \<and> (\<forall>j e. json_dumps d = Inr j \<longrightarrow> open_w os_open path = Some e
                 \<longrightarrow> dump json_dumps os_open self dict_to_dump path_arg fs = Inl (Raised e))
           \<and> (\<forall>j. json_dumps d = Inr j \<longrightarrow> open_w os_open path = None
                 \<longrightarrow> dump json_dumps os_open self dict_to_dump path_arg fs
                       = Inr (fs(path \<mapsto> j @ [CHR 0x0A])))))"
  by (cases path_arg; cases "dumping_path self"; cases dict_to_dump)
    (auto simp: dump_def Let_def split: sum.splits option.splits)

theorem dump_ValueError_iff_witness:
  "dump toy_json_dumps (\<lambda>_. None) \<lparr>dumping_path = Some ''params.json'', dic = ''{}''\<rparr>
      None None Map.empty
     = Inr [''params.json'' \<mapsto> ''{}'' @ [CHR 0x0A]]
   \<and> dump toy_json_dumps (\<lambda>_. None) \<lparr>dumping_path = None, dic = ''{}''\<rparr>
      (Some ''[]'') (Some ''out.json'') Map.empty
     = Inr [''out.json'' \<mapsto> ''[]'' @ [CHR 0x0A]]
   \<and> dump toy_json_dumps (\<lambda>_. None) \<lparr>dumping_path = None, dic = ''{}''\<rparr> None None Map.empty
     = Inl NoDumpPath
   \<and> dump toy_json_dumps (\<lambda>_. None) \<lparr>dumping_path = None, dic = ''{}''\<rparr>
      (Some ''{1, 2}'') (Some ''out.json'') Map.empty
     = Inl (Raised TypeError)
   \<and> dump toy_json_dumps (\<lambda>p. if p = [] then Some FileNotFoundError else None)
      \<lparr>dumping_path = Some [], dic = ''{}''\<rparr> None None Map.empty
     = Inl (Raised FileNotFoundError)"
  using dump_ValueError_iff [of toy_json_dumps "\<lambda>_. None"
      "\<lparr>dumping_path = Some ''params.json'', dic = ''{}''\<rparr>" None None Map.empty]
    dump_ValueError_iff [of toy_json_dumps "\<lambda>_. None"
      "\<lparr>dumping_path = None, dic = ''{}''\<rparr>" "Some ''[]''" "Some ''out.json''" Map.empty]
    dump_ValueError_iff [of toy_json_dumps "\<lambda>_. None"
      "\<lparr>dumping_path = None, dic = ''{}''\<rparr>" None None Map.empty]
    dump_ValueError_iff [of toy_json_dumps "\<lambda>_. None"
      "\<lparr>dumping_path = None, dic = ''{}''\<rparr>" "Some ''{1, 2}''" "Some ''out.json''" Map.empty]
    dump_ValueError_iff [of toy_json_dumps "\<lambda>p. if p = [] then Some FileNotFoundError else None"
      "\<lparr>dumping_path = Some [], dic = ''{}''\<rparr>" None None Map.empty]
  by (auto simp: toy_json_dumps_def open_w_def)

text \<open>
  Claim C10 as stated (a ValueError if and only if both paths are \<open>None\<close>, otherwise the
  dictionary is written) is false: with the path \<open>a\0b\<close> given, \<open>open\<close> raises ValueError
  (embedded null byte) and nothing is written; with a path given and a value that
  \<open>json.dumps\<close> rejects, \<open>dump\<close> raises TypeError and nothing is written.
\<close>

theorem dump_ValueError_with_path:
  "dump toy_json_dumps (\<lambda>_. None) \<lparr>dumping_path = None, dic = ''{}''\<rparr>
      None (Some [CHR ''a'', CHR 0x00, CHR ''b'']) Map.empty
     = Inl (Raised ValueError)
   \<and> is_ValueError (Raised ValueError)
   \<and> dump toy_json_dumps (\<lambda>_. None) \<lparr>dumping_path = None, dic = ''{}''\<rparr>
      (Some ''{1, 2}'') (Some ''out.json'') Map.empty
     = Inl (Raised TypeError)"
  by (simp add: dump_def open_w_def toy_json_dumps_def)

section \<open>Fingerprints\<close>

text \<open>
  Claim C8. The fingerprint loop asks RDKit for the Morgan fingerprint of every molecule
  with radius 3 and 2048 bits. RDKit's function is a parameter: given that it returns as
  many bits as it is asked for, every fingerprint of the batch is a vector of exactly 2048
  bits, one per molecule and in order, identical molecules have identical fingerprints,
  and the rows stack into a matrix (unless the batch is empty).
\<close>

theorem fingerprint_2048_bits:
  assumes "\<forall>m r n bv. GetMorganFingerprintAsBitVect env m r n = Inr bv \<longrightarrow> length bv = n"
    and "fps_loop env smiles [] = Inr fps"
  shows "length fps = length smiles
    \<and> (\<forall>i<length smiles.
          GetMorganFingerprintAsBitVect env (MolFromSmiles env (smiles ! i)) 3 2048
            = Inr (fps ! i)
          \<and> length (fps ! i) = 2048)
    \<and> (\<forall>i<length smiles. \<forall>j<length smiles.
          MolFromSmiles env (smiles ! i) = MolFromSmiles env (smiles ! j)
            \<longrightarrow> fps ! i = fps ! j)
    \<and> np_vstack fps = (if smiles = [] then Inl ValueError else Inr fps)"
proof -
  from fps_loop_acc [OF assms(2)] have l: "length fps = length smiles"
    and p: "\<forall>k<length smiles.
           GetMorganFingerprintAsBitVect env (MolFromSmiles env (smiles ! k)) 3 2048
             = Inr (fps ! k)"
    by auto
  have w: "\<forall>i<length smiles. length (fps ! i) = 2048"
    using p assms(1) by blast
  have d: "\<forall>i<length smiles. \<forall>j<length smiles.
          MolFromSmiles env (smiles ! i) = MolFromSmiles env (smiles ! j)
            \<longrightarrow> fps ! i = fps ! j"
  proof (intro allI impI)
    fix i j assume "i < length smiles" "j < length smiles"
      and "MolFromSmiles env (smiles ! i) = MolFromSmiles env (smiles ! j)"
    then have "(Inr (fps ! i) :: error + bool list) = Inr (fps ! j)" using p by metis
    then show "fps ! i = fps ! j" by simp
  qed
  have "\<forall>r\<in>set fps. length r = 2048"
    using w l by (auto simp: in_set_conv_nth)
  then have v: "np_vstack fps = (if smiles = [] then Inl ValueError else Inr fps)"
    using l by (cases fps) (auto simp: np_vstack_def list_all_iff)
  show ?thesis using l p w d v by blast
qed

lemma toy_fps: "fps_loop toy_env [''C'', ''CCO''] [] = Inr [replicate 2048 False, replicate 2048 True]"
  by (simp add: toy_sel)

theorem fingerprint_2048_bits_witness:
  "fps_loop toy_env [''C'', ''CCO''] [] = Inr [replicate 2048 False, replicate 2048 True]
   \<and> length (replicate 2048 False) = 2048 \<and> length (replicate 2048 True) = 2048
   \<and> np_vstack [replicate 2048 False, replicate 2048 True]
       = Inr [replicate 2048 False, replicate 2048 True]"
proof -
  have c: "\<forall>m r n bv. GetMorganFingerprintAsBitVect toy_env m r n = Inr bv \<longrightarrow> length bv = n"
    by (auto simp: toy_sel split: option.splits)
  from fingerprint_2048_bits [OF c toy_fps] show ?thesis
    using toy_fps by simp
qed

section \<open>\<open>QED_oracle\<close>\<close>




section \<open>Scores, composite objective and output files\<close>

lemma length_normalize: "length (normalize np xs) = length xs"
  by (simp add: normalize_def)

lemma composite_three:
  "composite np [a, b, c] = arr_add np (arr_add np (normalize np a) (normalize np b)) (normalize np c)"
  by (simp add: composite_def)

lemma composite_one: "composite np [a] = normalize np a"
  by (simp add: composite_def)

lemma arr_add_three_nth:
  assumes "length xs = n" "length ys = n" "length zs = n" "i < n"
  shows "arr_add np (arr_add np xs ys) zs ! i = np_add np (np_add np (xs ! i) (ys ! i)) (zs ! i)"
  using assms by (simp add: arr_add_def)

lemma mol_of_item_Inr:
  "mol_of_item env it = Inr m \<Longrightarrow> \<exists>s. it = Scalar s \<and> m = MolFromSmiles env s"
  by (cases it) (auto simp: mol_of_item_def)

lemma score_loop_scores:
  assumes "score_loop env f df [0..<n] ([], [], []) = Inr (vs, sas, cys)"
  shows "length vs = n \<and> length sas = n \<and> length cys = n
     \<and> (\<forall>i<n. \<exists>s. series_getitem df (int i) = Inr (Scalar s)
             \<and> f (MolFromSmiles env s) = Inr (vs ! i)
             \<and> calculateScore env (MolFromSmiles env s) = Inr (- (sas ! i))
             \<and> cycle_score env (MolFromSmiles env s) = Inr (- (cys ! i)))"
proof -
  note r = score_loop_range [OF assms]
  have "\<exists>s. series_getitem df (int i) = Inr (Scalar s)
             \<and> f (MolFromSmiles env s) = Inr (vs ! i)
             \<and> calculateScore env (MolFromSmiles env s) = Inr (- (sas ! i))
             \<and> cycle_score env (MolFromSmiles env s) = Inr (- (cys ! i))" if "i < n" for i
  proof -
    from r that obtain it m where
      "series_getitem df (int i) = Inr it" "mol_of_item env it = Inr m" "f m = Inr (vs ! i)"
      "calculateScore env m = Inr (- (sas ! i))" "cycle_score env m = Inr (- (cys ! i))"
      by blast
    then show ?thesis using mol_of_item_Inr by blast
  qed
  then show ?thesis using r by blast
qed

text \<open>
  Claim C6. In the modes \<open>logp\<close> and \<open>qed\<close>, for every molecule of the batch, the
  synthetic-accessibility score stored (and written to \<open>SA_scores.txt\<close>) is the negation
  of what \<open>calculateScore\<close> returns for it, and the cycle score stored (and written to
  \<open>cycle_scores.txt\<close>) is the negation of what \<open>cycle_score\<close> returns. (That a larger
  value is then the more desirable one is the purpose of the negation, a reading of the
  scores and not a property of the program.)
\<close>

theorem negated_scores_stored:
  assumes "main np env a csv fs = (fs', None)" and "obj a = ''logp'' \<or> obj a = ''qed''"
  shows "\<exists>SA_scores cycle_scores.
      fs' ''SA_scores.txt'' = Some (Vector (map Fin SA_scores))
    \<and> fs' ''cycle_scores.txt'' = Some (Vector (map Fin cycle_scores))
    \<and> length SA_scores = length (load_smiles_df a csv)
    \<and> length cycle_scores = length (load_smiles_df a csv)
    \<and> (\<forall>i<length (load_smiles_df a csv). \<exists>s raw_sa raw_cycle.
          series_getitem (load_smiles_df a csv) (int i) = Inr (Scalar s)
        \<and> calculateScore env (MolFromSmiles env s) = Inr raw_sa
        \<and> cycle_score env (MolFromSmiles env s) = Inr raw_cycle
        \<and> SA_scores ! i = - raw_sa
        \<and> cycle_scores ! i = - raw_cycle)"
proof -
  let ?df = "load_smiles_df a csv"
  have "\<exists>f vs sa cy. score_loop env f ?df [0..<length ?df] ([], [], []) = Inr (vs, sa, cy)
      \<and> fs' ''SA_scores.txt'' = Some (Vector (map Fin sa))
      \<and> fs' ''cycle_scores.txt'' = Some (Vector (map Fin cy))"
  proof (rule disjE [OF assms(2)])
    assume "obj a = ''logp''"
    from main_logp_ok [OF assms(1) this] obtain model z lp sa cy where
    "model_from_json env (name a) = Inr model" and
      "score_loop env (logP env) ?df [0..<length ?df] ([], [], []) = Inr (lp, sa, cy)"
      "fs' = fs(''latent_features.txt'' \<mapsto> Matrix z,
                    ''targets_logp.txt'' \<mapsto>
                       Vector (arr_add np (arr_add np (normalize np sa) (normalize np lp)) (normalize np cy)),
                    ''logP_values.txt'' \<mapsto> Vector (map Fin lp),
                    ''SA_scores.txt'' \<mapsto> Vector (map Fin sa),
                    ''cycle_scores.txt'' \<mapsto> Vector (map Fin cy))"
      by blast
    then show ?thesis
      by (intro exI [of _ "logP env"] exI [of _ lp] exI [of _ sa] exI [of _ cy]) simp
  next
    assume "obj a = ''qed''"
    from main_qed_ok [OF assms(1) this] obtain model z qv sa cy where
    "model_from_json env (name a) = Inr model" and
      "score_loop env (comp_metrics_qed env) ?df [0..<length ?df] ([], [], []) = Inr (qv, sa, cy)"
      "fs' = fs(''latent_features.txt'' \<mapsto> Matrix z,
                    ''targets_qed.txt'' \<mapsto>
                       Vector (arr_add np (arr_add np (normalize np sa) (normalize np qv)) (normalize np cy)),
                    ''qed_values.txt'' \<mapsto> Vector (map Fin qv),
                    ''SA_scores.txt'' \<mapsto> Vector (map Fin sa),
                    ''cycle_scores.txt'' \<mapsto> Vector (map Fin cy))"
      by blast
    then show ?thesis
      by (intro exI [of _ "comp_metrics_qed env"] exI [of _ qv] exI [of _ sa] exI [of _ cy]) simp
  qed
  then obtain f vs sa cy where
    l: "score_loop env f ?df [0..<length ?df] ([], [], []) = Inr (vs, sa, cy)"
    and f1: "fs' ''SA_scores.txt'' = Some (Vector (map Fin sa))"
    and f2: "fs' ''cycle_scores.txt'' = Some (Vector (map Fin cy))"
    by blast
  note s = score_loop_scores [OF l]
  have "\<exists>s raw_sa raw_cycle.
          series_getitem ?df (int i) = Inr (Scalar s)
        \<and> calculateScore env (MolFromSmiles env s) = Inr raw_sa
        \<and> cycle_score env (MolFromSmiles env s) = Inr raw_cycle
        \<and> sa ! i = - raw_sa
        \<and> cy ! i = - raw_cycle" if "i < length ?df" for i
  proof -
    from s that obtain s where
      "series_getitem ?df (int i) = Inr (Scalar s)"
      "calculateScore env (MolFromSmiles env s) = Inr (- (sa ! i))"
      "cycle_score env (MolFromSmiles env s) = Inr (- (cy ! i))"
      by blast
    then show ?thesis by (intro exI [of _ s] exI [of _ "- (sa ! i)"] exI [of _ "- (cy ! i)"]) simp
  qed
  then show ?thesis using f1 f2 s by blast
qed

theorem negated_scores_stored_witness:
  "fst (main float64 toy_env (toy_args ''logp'' 2) toy_csv Map.empty) ''SA_scores.txt''
     = Some (Vector [Fin (- 1), Fin (- 3)])
   \<and> fst (main float64 toy_env (toy_args ''logp'' 2) toy_csv Map.empty) ''cycle_scores.txt''
     = Some (Vector [Fin (- 1), Fin (- 3)])
   \<and> fst (main float64 toy_env (toy_args ''qed'' 2) toy_csv Map.empty) ''SA_scores.txt''
     = Some (Vector [Fin (- 1), Fin (- 3)])
   \<and> fst (main float64 toy_env (toy_args ''qed'' 2) toy_csv Map.empty) ''cycle_scores.txt''
     = Some (Vector [Fin (- 1), Fin (- 3)])
   \<and> calculateScore toy_env (MolFromSmiles toy_env ''C'') = Inr 1
   \<and> calculateScore toy_env (MolFromSmiles toy_env ''CCO'') = Inr 3
   \<and> cycle_score toy_env (MolFromSmiles toy_env ''C'') = Inr 1
   \<and> cycle_score toy_env (MolFromSmiles toy_env ''CCO'') = Inr 3"
proof -
  have o: "obj (toy_args ''logp'' 2) = ''logp'' \<or> obj (toy_args ''logp'' 2) = ''qed''"
    "obj (toy_args ''qed'' 2) = ''logp'' \<or> obj (toy_args ''qed'' 2) = ''qed''"
    by (simp_all add: toy_args_sel)
  from negated_scores_stored [OF toy_logp o(1)] negated_scores_stored [OF toy_qed o(2)]
  show ?thesis
    by (simp add: toy_logp toy_qed toy_sel toy_score_def)
qed

lemma logp_like_composite:
  assumes "score_loop env f df [0..<length df] ([], [], []) = Inr (vs, sa, cy)"
  shows "arr_add np (arr_add np (normalize np sa) (normalize np vs)) (normalize np cy) = composite np [sa, vs, cy]
    \<and> length (composite np [sa, vs, cy]) = length df
    \<and> length vs = length df \<and> length sa = length df \<and> length cy = length df
    \<and> (\<forall>i<length df. composite np [sa, vs, cy] ! i
          = np_add np (np_add np (normalize np sa ! i) (normalize np vs ! i)) (normalize np cy ! i))"
proof -
  from score_loop_range [OF assms]
  have l: "length vs = length df" "length sa = length df" "length cy = length df"
    by auto
  have "length (composite np [sa, vs, cy]) = length df"
    using l by (simp add: composite_three arr_add_def length_normalize)
  moreover have "\<forall>i<length df. composite np [sa, vs, cy] ! i
          = np_add np (np_add np (normalize np sa ! i) (normalize np vs ! i)) (normalize np cy ! i)"
    using l by (simp add: composite_three arr_add_three_nth length_normalize)
  ultimately show ?thesis using l by (simp add: composite_three)
qed

text \<open>
  Claim C2. In every mode that computes a composite objective (\<open>logp\<close>, \<open>qed\<close>,
  \<open>qsar\<close>) and for every input, the vector written as the target is the specification's
  composite of the raw component vectors the run computed, entry by entry the sum of the
  normalized components, and it has exactly as many entries as the batch has molecules.
  The three component vectors of \<open>logp\<close> and \<open>qed\<close> have that length too; in \<open>qsar\<close> the
  length rests on the classifier returning one row of probabilities per fingerprint.
\<close>

theorem composite_sum_of_normalized:
  assumes "main np env a csv fs = (fs', None)"
    and "\<forall>clf fps p. predict_proba env clf fps = Inr p \<longrightarrow> length p = length fps"
  shows
   "(obj a = ''logp'' \<longrightarrow> (\<exists>lp sa cy.
        score_loop env (logP env) (load_smiles_df a csv)
          [0..<length (load_smiles_df a csv)] ([], [], []) = Inr (lp, sa, cy)
      \<and> fs' ''targets_logp.txt'' = Some (Vector (composite np [sa, lp, cy]))
      \<and> length (composite np [sa, lp, cy]) = length (load_smiles_df a csv)
      \<and> length lp = length (load_smiles_df a csv)
      \<and> length sa = length (load_smiles_df a csv)
      \<and> length cy = length (load_smiles_df a csv)
      \<and> (\<forall>i<length (load_smiles_df a csv). composite np [sa, lp, cy] ! i
            = np_add np (np_add np (normalize np sa ! i) (normalize np lp ! i)) (normalize np cy ! i))))
  \<and> (obj a = ''qed'' \<longrightarrow> (\<exists>qv sa cy.
        score_loop env (comp_metrics_qed env) (load_smiles_df a csv)
          [0..<length (load_smiles_df a csv)] ([], [], []) = Inr (qv, sa, cy)
      \<and> fs' ''targets_qed.txt'' = Some (Vector (composite np [sa, qv, cy]))
      \<and> length (composite np [sa, qv, cy]) = length (load_smiles_df a csv)
      \<and> length qv = length (load_smiles_df a csv)
      \<and> length sa = length (load_smiles_df a csv)
      \<and> length cy = length (load_smiles_df a csv)
      \<and> (\<forall>i<length (load_smiles_df a csv). composite np [sa, qv, cy] ! i
            = np_add np (np_add np (normalize np sa ! i) (normalize np qv ! i)) (normalize np cy ! i))))
  \<and> (obj a = ''qsar'' \<longrightarrow> (\<exists>clf fps p.
        pickle_load env = Inr clf
      \<and> fps_loop env (map snd (load_smiles_df a csv)) [] = Inr fps
      \<and> predict_proba env clf fps = Inr p
      \<and> fs' ''targets_qsar.txt'' = Some (Vector (composite np [map snd p]))
      \<and> length (composite np [map snd p]) = length (load_smiles_df a csv)
      \<and> (\<forall>i<length (load_smiles_df a csv). composite np [map snd p] ! i
            = normalize np (map snd p) ! i)))"
proof (intro conjI impI)
  let ?df = "load_smiles_df a csv"
  assume "obj a = ''logp''"
  from main_logp_ok [OF assms(1) this] obtain model z lp sa cy where
    "model_from_json env (name a) = Inr model" and
    l: "score_loop env (logP env) ?df [0..<length ?df] ([], [], []) = Inr (lp, sa, cy)"
    and f: "fs' = fs(''latent_features.txt'' \<mapsto> Matrix z,
                    ''targets_logp.txt'' \<mapsto>
                       Vector (arr_add np (arr_add np (normalize np sa) (normalize np lp)) (normalize np cy)),
                    ''logP_values.txt'' \<mapsto> Vector (map Fin lp),
                    ''SA_scores.txt'' \<mapsto> Vector (map Fin sa),
                    ''cycle_scores.txt'' \<mapsto> Vector (map Fin cy))"
    by blast
  note c = logp_like_composite [OF l]
  have "fs' ''targets_logp.txt'' = Some (Vector (composite np [sa, lp, cy]))"
    using c by (simp add: f)
  then show "\<exists>lp sa cy.
        score_loop env (logP env) ?df [0..<length ?df] ([], [], []) = Inr (lp, sa, cy)
      \<and> fs' ''targets_logp.txt'' = Some (Vector (composite np [sa, lp, cy]))
      \<and> length (composite np [sa, lp, cy]) = length ?df
      \<and> length lp = length ?df \<and> length sa = length ?df \<and> length cy = length ?df
      \<and> (\<forall>i<length ?df. composite np [sa, lp, cy] ! i
            = np_add np (np_add np (normalize np sa ! i) (normalize np lp ! i)) (normalize np cy ! i))"
    using l c by blast
next
  let ?df = "load_smiles_df a csv"
  assume "obj a = ''qed''"
  from main_qed_ok [OF assms(1) this] obtain model z qv sa cy where
    "model_from_json env (name a) = Inr model" and
    l: "score_loop env (comp_metrics_qed env) ?df [0..<length ?df] ([], [], []) = Inr (qv, sa, cy)"
    and f: "fs' = fs(''latent_features.txt'' \<mapsto> Matrix z,
                    ''targets_qed.txt'' \<mapsto>
                       Vector (arr_add np (arr_add np (normalize np sa) (normalize np qv)) (normalize np cy)),
                    ''qed_values.txt'' \<mapsto> Vector (map Fin qv),
                    ''SA_scores.txt'' \<mapsto> Vector (map Fin sa),
                    ''cycle_scores.txt'' \<mapsto> Vector (map Fin cy))"
    by blast
  note c = logp_like_composite [OF l]
  have "fs' ''targets_qed.txt'' = Some (Vector (composite np [sa, qv, cy]))"
    using c by (simp add: f)
  then show "\<exists>qv sa cy.
        score_loop env (comp_metrics_qed env) ?df [0..<length ?df] ([], [], []) = Inr (qv, sa, cy)
      \<and> fs' ''targets_qed.txt'' = Some (Vector (composite np [sa, qv, cy]))
      \<and> length (composite np [sa, qv, cy]) = length ?df
      \<and> length qv = length ?df \<and> length sa = length ?df \<and> length cy = length ?df
      \<and> (\<forall>i<length ?df. composite np [sa, qv, cy] ! i
            = np_add np (np_add np (normalize np sa ! i) (normalize np qv ! i)) (normalize np cy ! i))"
    using l c by blast
next
  let ?df = "load_smiles_df a csv"
  assume "obj a = ''qsar''"
  from main_qsar_ok [OF assms(1) this] obtain model z clf fps p where
    "model_from_json env (name a) = Inr model" and
    c: "pickle_load env = Inr clf"
    and l: "fps_loop env (map snd ?df) [] = Inr fps"
    and q: "predict_proba env clf fps = Inr p"
    and f: "fs' = fs(''latent_features.txt'' \<mapsto> Matrix z,
                    ''targets_qsar.txt'' \<mapsto> Vector (normalize np (map snd p)))"
    by blast
  from fps_loop_acc [OF l] have "length fps = length ?df" by auto
  with q assms(2) have n: "length p = length ?df" by metis
  have "fs' ''targets_qsar.txt'' = Some (Vector (composite np [map snd p]))"
    by (simp add: f composite_one)
  moreover have "length (composite np [map snd p]) = length ?df"
    using n by (simp add: composite_one length_normalize)
  ultimately show "\<exists>clf fps p.
        pickle_load env = Inr clf
      \<and> fps_loop env (map snd ?df) [] = Inr fps
      \<and> predict_proba env clf fps = Inr p
      \<and> fs' ''targets_qsar.txt'' = Some (Vector (composite np [map snd p]))
      \<and> length (composite np [map snd p]) = length ?df
      \<and> (\<forall>i<length ?df. composite np [map snd p] ! i = normalize np (map snd p) ! i)"
    using c l q by (auto simp: composite_one)
qed

lemma toy_proba_contract:
  "\<forall>clf fps p. predict_proba toy_env clf fps = Inr p \<longrightarrow> length p = length fps"
  by (auto simp: toy_sel)

theorem composite_sum_of_normalized_witness:
  "fst (main float64 toy_env (toy_args ''logp'' 2) toy_csv Map.empty) ''targets_logp.txt''
     = Some (Vector [Fin 1, Fin (- 1)])
   \<and> composite float64 [[- 1, - 3], [1, 3], [- 1, - 3]] = [Fin 1, Fin (- 1)]
   \<and> fst (main float64 toy_env (toy_args ''qed'' 2) toy_csv Map.empty) ''targets_qed.txt''
     = Some (Vector [Fin 1, Fin (- 1)])
   \<and> fst (main float64 toy_env (toy_args ''qsar'' 2) toy_csv Map.empty) ''targets_qsar.txt''
     = Some (Vector [Fin (- 1), Fin 1])
   \<and> composite float64 [[0, 1]] = [Fin (- 1), Fin 1]"
  using composite_sum_of_normalized [OF toy_logp toy_proba_contract]
    composite_sum_of_normalized [OF toy_qed toy_proba_contract]
    composite_sum_of_normalized [OF toy_qsar toy_proba_contract]
  by (simp add: toy_logp toy_qed toy_qsar composite_three composite_one
      normalize_1_3 normalize_m1_m3 normalize_0_1 arr_add_def float64_sel round64_small)

section \<open>Batches of identical scores\<close>

text \<open>
  Claim C4, as amended. A batch in which every molecule has an identical score for some
  component is not detected and not rejected: when the model, the embedding and the
  scoring raise nothing, the run ends without an exception, having normalized every
  component (divided by whatever \<open>np.std\<close> returned, unchecked) and written the composite
  objective and the other output files of the mode.
\<close>

theorem zero_variance_not_rejected:
  assumes "model_from_json env (name a) = Inr model"
    and "embed env model (load_smiles_df a csv) = Inr z"
  shows
   "(obj a = ''logp'' \<longrightarrow> (\<forall>lp sa cy.
        score_loop env (logP env) (load_smiles_df a csv)
          [0..<length (load_smiles_df a csv)] ([], [], []) = Inr (lp, sa, cy)
        \<longrightarrow> zero_variance lp \<or> zero_variance sa \<or> zero_variance cy
        \<longrightarrow> main np env a csv fs =
              (fs(''latent_features.txt'' \<mapsto> Matrix z,
                  ''targets_logp.txt'' \<mapsto> Vector (composite np [sa, lp, cy]),
                  ''logP_values.txt'' \<mapsto> Vector (map Fin lp),
                  ''SA_scores.txt'' \<mapsto> Vector (map Fin sa),
                  ''cycle_scores.txt'' \<mapsto> Vector (map Fin cy)), None)))
  \<and> (obj a = ''qed'' \<longrightarrow> (\<forall>qv sa cy.
        score_loop env (comp_metrics_qed env) (load_smiles_df a csv)
          [0..<length (load_smiles_df a csv)] ([], [], []) = Inr (qv, sa, cy)
        \<longrightarrow> zero_variance qv \<or> zero_variance sa \<or> zero_variance cy
        \<longrightarrow> main np env a csv fs =
              (fs(''latent_features.txt'' \<mapsto> Matrix z,
                  ''targets_qed.txt'' \<mapsto> Vector (composite np [sa, qv, cy]),
                  ''qed_values.txt'' \<mapsto> Vector (map Fin qv),
                  ''SA_scores.txt'' \<mapsto> Vector (map Fin sa),
                  ''cycle_scores.txt'' \<mapsto> Vector (map Fin cy)), None)))
  \<and> (obj a = ''qsar'' \<longrightarrow> (\<forall>clf fps p.
        pickle_load env = Inr clf
        \<longrightarrow> fps_loop env (map snd (load_smiles_df a csv)) [] = Inr fps
        \<longrightarrow> np_vstack fps = Inr fps
        \<longrightarrow> predict_proba env clf fps = Inr p
        \<longrightarrow> zero_variance (map snd p)
        \<longrightarrow> main np env a csv fs =
              (fs(''latent_features.txt'' \<mapsto> Matrix z,
                  ''targets_qsar.txt'' \<mapsto> Vector (composite np [map snd p])), None)))"
  using assms
  by (simp add: main_def logp_branch_def qed_branch_def qsar_branch_def Let_def savetxt_def
      composite_three composite_one)

lemma flat_df: "load_smiles_df (toy_args mode 0) flat_csv = [(0, ''CC''), (1, ''CO'')]"
  by (simp add: load_smiles_df_def toy_args_def read_csv_def flat_csv_def)

lemma flat_loop:
  "score_loop toy_env toy_score [(0, ''CC''), (1, ''CO'')] [0..<length [(0::int, ''CC''), (1, ''CO'')]]
     ([], [], []) = Inr ([2, 2], [- 2, - 2], [- 2, - 2])"
  by (simp add: toy_sel series_getitem_def mol_of_item_def toy_score_def)

lemma normalize_flat:
  "normalize float64 [2, 2] = [NaN, NaN]" "normalize float64 [- 2, - 2] = [NaN, NaN]"
  "normalize float64 [1, 1] = [NaN, NaN]"
  by (simp_all add: normalize_def float64_sel f64_eval)

lemma flat_logp:
  "main float64 toy_env (toy_args ''logp'' 0) flat_csv Map.empty =
   ([''latent_features.txt'' \<mapsto> Matrix [[2], [2]],
     ''targets_logp.txt'' \<mapsto> Vector [NaN, NaN],
     ''logP_values.txt'' \<mapsto> Vector [Fin 2, Fin 2],
     ''SA_scores.txt'' \<mapsto> Vector [Fin (- 2), Fin (- 2)],
     ''cycle_scores.txt'' \<mapsto> Vector [Fin (- 2), Fin (- 2)]], None)"
  by (simp add: main_def flat_df logp_branch_def toy_sel series_getitem_def mol_of_item_def
      toy_score_def normalize_flat arr_add_def float64_sel savetxt_def Let_def toy_args_sel)

theorem zero_variance_not_rejected_witness:
  "zero_variance [2, 2] \<and> zero_variance [1, 1]
   \<and> main float64 toy_env (toy_args ''logp'' 0) flat_csv Map.empty =
      ([''latent_features.txt'' \<mapsto> Matrix [[2], [2]],
        ''targets_logp.txt'' \<mapsto> Vector [NaN, NaN],
        ''logP_values.txt'' \<mapsto> Vector [Fin 2, Fin 2],
        ''SA_scores.txt'' \<mapsto> Vector [Fin (- 2), Fin (- 2)],
        ''cycle_scores.txt'' \<mapsto> Vector [Fin (- 2), Fin (- 2)]], None)
   \<and> main float64 toy_env (toy_args ''qed'' 0) flat_csv Map.empty =
      ([''latent_features.txt'' \<mapsto> Matrix [[2], [2]],
        ''targets_qed.txt'' \<mapsto> Vector [NaN, NaN],
        ''qed_values.txt'' \<mapsto> Vector [Fin 2, Fin 2],
        ''SA_scores.txt'' \<mapsto> Vector [Fin (- 2), Fin (- 2)],
        ''cycle_scores.txt'' \<mapsto> Vector [Fin (- 2), Fin (- 2)]], None)
   \<and> main float64 toy_env (toy_args ''qsar'' 0) flat_csv Map.empty =
      ([''latent_features.txt'' \<mapsto> Matrix [[2], [2]],
        ''targets_qsar.txt'' \<mapsto> Vector [NaN, NaN]], None)"
proof -
  have m: "model_from_json toy_env (name (toy_args mode 0)) = Inr ()" for mode
    by (simp add: toy_sel)
  have e: "embed toy_env () (load_smiles_df (toy_args mode 0) flat_csv) = Inr [[2], [2]]" for mode
    by (simp add: toy_sel flat_df)
  have l: "score_loop toy_env toy_score (load_smiles_df (toy_args mode 0) flat_csv)
      [0..<length (load_smiles_df (toy_args mode 0) flat_csv)] ([], [], [])
      = Inr ([2, 2], [- 2, - 2], [- 2, - 2])" for mode
    unfolding flat_df by (rule flat_loop)
  have zv: "zero_variance [2, 2]" "zero_variance [1, 1]"
    "zero_variance (map snd [(0::real, 1::real), (0, 1)])"
    by (simp_all add: zero_variance_def)
  have f: "fps_loop toy_env (map snd (load_smiles_df (toy_args mode 0) flat_csv)) []
      = Inr [replicate 2048 True, replicate 2048 True]" for mode
    by (simp add: flat_df toy_sel)
  have v: "np_vstack [replicate 2048 True, replicate 2048 True]
      = Inr [replicate 2048 True, replicate 2048 True]"
    by (simp add: np_vstack_def)
  have q: "predict_proba toy_env () [replicate 2048 True, replicate 2048 True] = Inr [(0, 1), (0, 1)]"
    by (simp add: toy_sel)
  have c: "composite float64 [[- 2, - 2], [2, 2], [- 2, - 2]] = [NaN, NaN]"
    "composite float64 [[1, 1]] = [NaN, NaN]"
    by (simp_all add: composite_three composite_one normalize_flat arr_add_def float64_sel)
  from zero_variance_not_rejected [OF m e, of "''logp''" float64 Map.empty] l [of "''logp''"] zv(1)
  have 1: "main float64 toy_env (toy_args ''logp'' 0) flat_csv Map.empty =
      ([''latent_features.txt'' \<mapsto> Matrix [[2], [2]],
        ''targets_logp.txt'' \<mapsto> Vector [NaN, NaN],
        ''logP_values.txt'' \<mapsto> Vector [Fin 2, Fin 2],
        ''SA_scores.txt'' \<mapsto> Vector [Fin (- 2), Fin (- 2)],
        ''cycle_scores.txt'' \<mapsto> Vector [Fin (- 2), Fin (- 2)]], None)"
    by (simp add: toy_args_sel toy_sel c)
  from zero_variance_not_rejected [OF m e, of "''qed''" float64 Map.empty] l [of "''qed''"] zv(1)
  have 2: "main float64 toy_env (toy_args ''qed'' 0) flat_csv Map.empty =
      ([''latent_features.txt'' \<mapsto> Matrix [[2], [2]],
        ''targets_qed.txt'' \<mapsto> Vector [NaN, NaN],
        ''qed_values.txt'' \<mapsto> Vector [Fin 2, Fin 2],
        ''SA_scores.txt'' \<mapsto> Vector [Fin (- 2), Fin (- 2)],
        ''cycle_scores.txt'' \<mapsto> Vector [Fin (- 2), Fin (- 2)]], None)"
    by (simp add: toy_args_sel toy_sel c)
  from zero_variance_not_rejected [OF m e, of "''qsar''" float64 Map.empty] f [of "''qsar''"] v q zv(3)
  have 3: "main float64 toy_env (toy_args ''qsar'' 0) flat_csv Map.empty =
      ([''latent_features.txt'' \<mapsto> Matrix [[2], [2]],
        ''targets_qsar.txt'' \<mapsto> Vector [NaN, NaN]], None)"
    by (simp add: toy_args_sel toy_sel c)
  show ?thesis using 1 2 3 zv by simp
qed

text \<open>
  Claim C4 as stated (such a batch is detected and rejected as an error) is false: on the
  concrete batch, where every molecule has the same logP, the run ends without an
  exception and writes its targets (here NaN, from \<open>0 / 0\<close>).
\<close>

theorem zero_variance_batch_accepted:
  "zero_variance [2, 2]
   \<and> fst (main float64 toy_env (toy_args ''logp'' 0) flat_csv Map.empty) ''logP_values.txt''
       = Some (Vector [Fin 2, Fin 2])
   \<and> snd (main float64 toy_env (toy_args ''logp'' 0) flat_csv Map.empty) = None
   \<and> fst (main float64 toy_env (toy_args ''logp'' 0) flat_csv Map.empty) ''targets_logp.txt''
       = Some (Vector [NaN, NaN])"
  by (simp add: flat_logp zero_variance_def)

section \<open>Output files\<close>

text \<open>
  Claim C5, as amended. In the modes \<open>logp\<close> and \<open>qed\<close> a successful run writes the
  composite objective and each raw score component to a file of its own (four files). In
  the mode \<open>qsar\<close> it writes the normalized target vector only, to \<open>targets_qsar.txt\<close>:
  besides \<open>latent_features.txt\<close> no other file is written, and none holds the raw
  probabilities.
\<close>

theorem raw_components_written:
  assumes "main np env a csv fs = (fs', None)"
  shows
   "(obj a = ''logp'' \<longrightarrow> (\<exists>lp sa cy.
        score_loop env (logP env) (load_smiles_df a csv)
          [0..<length (load_smiles_df a csv)] ([], [], []) = Inr (lp, sa, cy)
      \<and> fs' ''targets_logp.txt'' = Some (Vector (composite np [sa, lp, cy]))
      \<and> fs' ''logP_values.txt'' = Some (Vector (map Fin lp))
      \<and> fs' ''SA_scores.txt'' = Some (Vector (map Fin sa))
      \<and> fs' ''cycle_scores.txt'' = Some (Vector (map Fin cy))))
  \<and> (obj a = ''qed'' \<longrightarrow> (\<exists>qv sa cy.
        score_loop env (comp_metrics_qed env) (load_smiles_df a csv)
          [0..<length (load_smiles_df a csv)] ([], [], []) = Inr (qv, sa, cy)
      \<and> fs' ''targets_qed.txt'' = Some (Vector (composite np [sa, qv, cy]))
      \<and> fs' ''qed_values.txt'' = Some (Vector (map Fin qv))
      \<and> fs' ''SA_scores.txt'' = Some (Vector (map Fin sa))
      \<and> fs' ''cycle_scores.txt'' = Some (Vector (map Fin cy))))
  \<and> (obj a = ''qsar'' \<longrightarrow> (\<exists>z clf fps p.
        pickle_load env = Inr clf
      \<and> fps_loop env (map snd (load_smiles_df a csv)) [] = Inr fps
      \<and> predict_proba env clf fps = Inr p
      \<and> fs' = fs(''latent_features.txt'' \<mapsto> Matrix z,
                 ''targets_qsar.txt'' \<mapsto> Vector (normalize np (map snd p)))))"
proof (intro conjI impI)
  let ?df = "load_smiles_df a csv"
  assume "obj a = ''logp''"
  from main_logp_ok [OF assms this] obtain model z lp sa cy where
    "model_from_json env (name a) = Inr model" and
    l: "score_loop env (logP env) ?df [0..<length ?df] ([], [], []) = Inr (lp, sa, cy)"
    and f: "fs' = fs(''latent_features.txt'' \<mapsto> Matrix z,
                    ''targets_logp.txt'' \<mapsto>
                       Vector (arr_add np (arr_add np (normalize np sa) (normalize np lp)) (normalize np cy)),
                    ''logP_values.txt'' \<mapsto> Vector (map Fin lp),
                    ''SA_scores.txt'' \<mapsto> Vector (map Fin sa),
                    ''cycle_scores.txt'' \<mapsto> Vector (map Fin cy))"
    by blast
  have "fs' ''targets_logp.txt'' = Some (Vector (composite np [sa, lp, cy]))"
    "fs' ''logP_values.txt'' = Some (Vector (map Fin lp))"
    "fs' ''SA_scores.txt'' = Some (Vector (map Fin sa))"
    "fs' ''cycle_scores.txt'' = Some (Vector (map Fin cy))"
    by (simp_all add: f composite_three)
  with l show "\<exists>lp sa cy.
        score_loop env (logP env) ?df [0..<length ?df] ([], [], []) = Inr (lp, sa, cy)
      \<and> fs' ''targets_logp.txt'' = Some (Vector (composite np [sa, lp, cy]))
      \<and> fs' ''logP_values.txt'' = Some (Vector (map Fin lp))
      \<and> fs' ''SA_scores.txt'' = Some (Vector (map Fin sa))
      \<and> fs' ''cycle_scores.txt'' = Some (Vector (map Fin cy))"
    by blast
next
  let ?df = "load_smiles_df a csv"
  assume "obj a = ''qed''"
  from main_qed_ok [OF assms this] obtain model z qv sa cy where
    "model_from_json env (name a) = Inr model" and
    l: "score_loop env (comp_metrics_qed env) ?df [0..<length ?df] ([], [], []) = Inr (qv, sa, cy)"
    and f: "fs' = fs(''latent_features.txt'' \<mapsto> Matrix z,
                    ''targets_qed.txt'' \<mapsto>
                       Vector (arr_add np (arr_add np (normalize np sa) (normalize np qv)) (normalize np cy)),
                    ''qed_values.txt'' \<mapsto> Vector (map Fin qv),
                    ''SA_scores.txt'' \<mapsto> Vector (map Fin sa),
                    ''cycle_scores.txt'' \<mapsto> Vector (map Fin cy))"
    by blast
  have "fs' ''targets_qed.txt'' = Some (Vector (composite np [sa, qv, cy]))"
    "fs' ''qed_values.txt'' = Some (Vector (map Fin qv))"
    "fs' ''SA_scores.txt'' = Some (Vector (map Fin sa))"
    "fs' ''cycle_scores.txt'' = Some (Vector (map Fin cy))"
    by (simp_all add: f composite_three)
  with l show "\<exists>qv sa cy.
        score_loop env (comp_metrics_qed env) ?df [0..<length ?df] ([], [], []) = Inr (qv, sa, cy)
      \<and> fs' ''targets_qed.txt'' = Some (Vector (composite np [sa, qv, cy]))
      \<and> fs' ''qed_values.txt'' = Some (Vector (map Fin qv))
      \<and> fs' ''SA_scores.txt'' = Some (Vector (map Fin sa))
      \<and> fs' ''cycle_scores.txt'' = Some (Vector (map Fin cy))"
    by blast
next
  let ?df = "load_smiles_df a csv"
  assume "obj a = ''qsar''"
  from main_qsar_ok [OF assms this] show "\<exists>z clf fps p.
        pickle_load env = Inr clf
      \<and> fps_loop env (map snd ?df) [] = Inr fps
      \<and> predict_proba env clf fps = Inr p
      \<and> fs' = fs(''latent_features.txt'' \<mapsto> Matrix z,
                 ''targets_qsar.txt'' \<mapsto> Vector (normalize np (map snd p)))"
    by blast
qed

theorem raw_components_written_witness:
  "fst (main float64 toy_env (toy_args ''logp'' 2) toy_csv Map.empty) ''logP_values.txt''
     = Some (Vector [Fin 1, Fin 3])
   \<and> fst (main float64 toy_env (toy_args ''qed'' 2) toy_csv Map.empty) ''qed_values.txt''
     = Some (Vector [Fin 1, Fin 3])
   \<and> fst (main float64 toy_env (toy_args ''qsar'' 2) toy_csv Map.empty)
     = [''latent_features.txt'' \<mapsto> Matrix [[1], [3]],
        ''targets_qsar.txt'' \<mapsto> Vector (normalize float64 [0, 1])]"
  using raw_components_written [OF toy_logp] raw_components_written [OF toy_qed]
    raw_components_written [OF toy_qsar]
  by (simp add: toy_logp toy_qed toy_qsar composite_one normalize_0_1)

text \<open>
  Claim C5 as stated (also in the mode \<open>qsar\<close> each raw score component is written to a
  file) is false: on the concrete input the classifier's probabilities are 0 and 1, the
  run writes two files, and no file holds them.
\<close>

theorem qsar_raw_scores_not_written:
  "snd (main float64 toy_env (toy_args ''qsar'' 2) toy_csv Map.empty) = None
   \<and> predict_proba toy_env () [replicate 2048 False, replicate 2048 True] = Inr [(1, 0), (0, 1)]
   \<and> dom (fst (main float64 toy_env (toy_args ''qsar'' 2) toy_csv Map.empty))
       = {''latent_features.txt'', ''targets_qsar.txt''}
   \<and> fst (main float64 toy_env (toy_args ''qsar'' 2) toy_csv Map.empty) ''targets_qsar.txt''
       = Some (Vector [Fin (- 1), Fin 1])
   \<and> (\<forall>path. fst (main float64 toy_env (toy_args ''qsar'' 2) toy_csv Map.empty) path
         \<noteq> Some (Vector [Fin 0, Fin 1]))"
  by (auto simp: toy_qsar toy_sel)

end
